theory Spec2Isabelle
  imports Complex_Main "HOL-Library.AList"
begin

section \<open>Python values, dictionaries and errors\<close>

text \<open>
  The values that travel through the logging code. A Python \<open>str\<close> is a \<open>string\<close>
  (characters read as code points below 256). \<open>PTuple\<close> is a tuple. \<open>PObj\<close> stands for
  an object of any other type outside \<open>EASY_TYPES\<close> (an exception, a class instance): a
  label and the truth value that \<open>bool(x)\<close> gives it.
\<close>

datatype pyval =
    PNone
  | PBool bool
  | PInt int
  | PFloat rat
  | PStr string
  | PList "pyval list"
  | PDict "(string \<times> pyval) list"
  | PTuple "pyval list"
  | PObj string bool

text \<open>Python truthiness, as used by \<open>if x:\<close> and \<open>x and y\<close>.\<close>

fun truthy :: "pyval \<Rightarrow> bool" where
  "truthy PNone = False"
| "truthy (PBool b) = b"
| "truthy (PInt n) = (n \<noteq> 0)"
| "truthy (PFloat q) = (q \<noteq> 0)"
| "truthy (PStr s) = (s \<noteq> [])"
| "truthy (PList xs) = (xs \<noteq> [])"
| "truthy (PDict d) = (d \<noteq> [])"
| "truthy (PTuple xs) = (xs \<noteq> [])"
| "truthy (PObj n t) = t"

text \<open>
  A Python \<open>dict\<close> with string keys is an association list in insertion order.
  \<open>d[k] = v\<close> replaces the value in place when the key exists and appends the pair
  otherwise; \<open>d.update(e)\<close> performs \<open>d[k] = v\<close> for the items of \<open>e\<close> in order.
\<close>

type_synonym 'v dict = "(string \<times> 'v) list"

definition dict_set :: "'v dict \<Rightarrow> string \<Rightarrow> 'v \<Rightarrow> 'v dict" where
  "dict_set d k v = AList.update k v d"

definition dict_update :: "'v dict \<Rightarrow> 'v dict \<Rightarrow> 'v dict" where
  "dict_update d e = fold (\<lambda>(k, v) acc. dict_set acc k v) e d"

definition dict_get :: "'v dict \<Rightarrow> string \<Rightarrow> 'v option" where
  "dict_get d k = map_of d k"

definition dict_keys :: "'v dict \<Rightarrow> string list" where
  "dict_keys d = map fst d"

definition dict_contains :: "string \<Rightarrow> 'v dict \<Rightarrow> bool" where
  "dict_contains k d \<longleftrightarrow> k \<in> set (dict_keys d)"

text \<open>The exceptions the module raises or lets through.\<close>

datatype error =
    RuntimeError string
  | ValueError string
  | TypeError string
  | AttributeError string
  | ZeroDivisionError string
  | OverflowError string
  | NotASubclass string string

text \<open>\<open>str.lower()\<close> on code points below 256: A-Z and the upper-case Latin-1 letters.\<close>

definition lower_char :: "char \<Rightarrow> char" where
  "lower_char c =
     (let n = (of_char c :: nat)
      in if (65 \<le> n \<and> n \<le> 90) \<or> (192 \<le> n \<and> n \<le> 222 \<and> n \<noteq> 215)
         then char_of (n + 32) else c)"

definition lower :: "string \<Rightarrow> string" where
  "lower s = map lower_char s"

section \<open>Classes, the framework registry and the module globals\<close>

text \<open>
  A class reference is its name together with the names of all its proper base classes;
  \<open>issubclass\<close> is membership in that list (or being the class itself).
\<close>

datatype pyclass = PyClass (cls_name: string) (cls_bases: "string list")

definition issubclass :: "pyclass \<Rightarrow> string \<Rightarrow> bool" where
  "issubclass c b \<longleftrightarrow> b = cls_name c \<or> b \<in> set (cls_bases c)"

text \<open>
  Modelled from the spec: \<open>json_logging.util.validate_subclass\<close> is not part of the
  source file. The spec has registration validate "each class reference against its
  expected capability contract" and lists "adapter classes failing capability validation"
  among the errors raised to the caller; the Python class of that error is not visible,
  so it has a constructor of its own.
\<close>

definition validate_subclass :: "pyclass \<Rightarrow> string \<Rightarrow> error + unit" where
  "validate_subclass subclass superclass =
     (if issubclass subclass superclass then Inr ()
      else Inl (NotASubclass (cls_name subclass) superclass))"

text \<open>One value of \<open>_framework_support_map\<close>: the dict with four fixed keys.\<close>

record framework_entry =
  app_configurator :: "pyclass option"
  app_request_instrumentation_configurator :: pyclass
  request_adapter_class :: pyclass
  response_adapter_class :: pyclass

text \<open>The host logging facility, as far as the module touches it.\<close>

datatype level = DEBUG | INFO | WARNING | ERROR

record formatter =
  fmt_class :: pyclass

record handler =
  h_stream :: string
  h_formatter :: "formatter option"

record logger =
  lg_level :: "level option"
  lg_handlers :: "handler list"
  lg_parent :: "string option"

text \<open>
  The module-level variables (the leading underscores of \<open>_current_framework\<close>,
  \<open>_request_util\<close>, \<open>_default_formatter\<close> and \<open>_framework_support_map\<close> are dropped), the
  class attribute \<open>BaseJSONFormatter.base_object_common\<close>, the calls made on the library
  logger \<open>_logger\<close>, \<open>logging._defaultFormatter\<close>, \<open>logging.Logger.manager.loggerDict\<close>,
  and the state \<open>'x\<close> of the web frameworks, which only their own configurators change.
  \<open>'ru\<close> is the type of the \<open>RequestUtil\<close> object.
\<close>

record ('ru, 'x) globals =
  ENABLE_JSON_LOGGING :: bool
  ENABLE_JSON_LOGGING_DEBUG :: bool
  COMPONENT_ID :: pyval
  COMPONENT_NAME :: pyval
  COMPONENT_INSTANCE_INDEX :: pyval
  framework_support_map :: "framework_entry dict"
  current_framework :: "framework_entry option"
  request_util :: "'ru option"
  default_formatter :: "pyclass option"
  base_object_common :: "pyval dict"
  logger_calls :: "(level \<times> string) list"
  logging_defaultFormatter :: formatter
  loggerDict :: "logger dict"
  framework_world :: 'x

definition EMPTY_VALUE :: pyval where
  "EMPTY_VALUE = PStr ''-''"

text \<open>\<open>ENABLE_JSON_LOGGING_DEBUG and _logger.<level>(msg)\<close>.\<close>

definition debug_call :: "level \<Rightarrow> string \<Rightarrow> ('ru, 'x) globals \<Rightarrow> ('ru, 'x) globals" where
  "debug_call lvl msg s =
     (if ENABLE_JSON_LOGGING_DEBUG s then s\<lparr>logger_calls := logger_calls s @ [(lvl, msg)]\<rparr>
      else s)"

text \<open>
  \<open>register_framework_support\<close>. The name is \<open>None\<close> or a string; the three required
  classes are classes, the app pre-configurator may be \<open>None\<close>.
\<close>

definition register_framework_support ::
  "string option \<Rightarrow> pyclass option \<Rightarrow> pyclass \<Rightarrow> pyclass \<Rightarrow> pyclass \<Rightarrow>
   ('ru, 'x) globals \<Rightarrow> (error + unit) \<times> ('ru, 'x) globals" where
  "register_framework_support name app_conf instr_conf request_cls response_cls s =
     (case name of
        None \<Rightarrow> (Inl (RuntimeError ''framework name can not be null or empty''), s)
      | Some n \<Rightarrow>
        if n = [] then (Inl (RuntimeError ''framework name can not be null or empty''), s)
        else
        (case validate_subclass request_cls ''RequestAdapter'' of
          Inl e \<Rightarrow> (Inl e, s)
        | Inr _ \<Rightarrow>
        (case validate_subclass response_cls ''ResponseAdapter'' of
          Inl e \<Rightarrow> (Inl e, s)
        | Inr _ \<Rightarrow>
        (case validate_subclass instr_conf ''AppRequestInstrumentationConfigurator'' of
          Inl e \<Rightarrow> (Inl e, s)
        | Inr _ \<Rightarrow>
        (case (case app_conf of None \<Rightarrow> Inr ()
               | Some c \<Rightarrow> validate_subclass c ''FrameworkConfigurator'') of
          Inl e \<Rightarrow> (Inl e, s)
        | Inr _ \<Rightarrow>
          (let name' = lower n;
               s1 = (if dict_contains name' (framework_support_map s)
                     then debug_call WARNING (''Re-register framework '' @ name') s else s)
           in (Inr (),
               s1\<lparr>framework_support_map :=
                     dict_set (framework_support_map s1) name'
                       \<lparr>app_configurator = app_conf,
                        app_request_instrumentation_configurator = instr_conf,
                        request_adapter_class = request_cls,
                        response_adapter_class = response_cls\<rparr>\<rparr>)))))))"

section \<open>Formatter construction and installation\<close>

text \<open>
  \<open>BaseJSONFormatter.__init__\<close>. \<open>self.base_object_common[k] = v\<close> is an item assignment
  on the object the attribute lookup finds: no instance and no subclass defines
  \<open>base_object_common\<close>, so the lookup always ends at the one dict created in the body of
  class \<open>BaseJSONFormatter\<close>, which is the field \<open>base_object_common\<close> of the globals.
\<close>

definition BaseJSONFormatter_init :: "('ru, 'x) globals \<Rightarrow> ('ru, 'x) globals" where
  "BaseJSONFormatter_init s =
     (let s1 = (if truthy (COMPONENT_ID s) \<and> COMPONENT_ID s \<noteq> EMPTY_VALUE
                then s\<lparr>base_object_common :=
                        dict_set (base_object_common s) ''component_id'' (COMPONENT_ID s)\<rparr>
                else s);
          s2 = (if truthy (COMPONENT_NAME s1) \<and> COMPONENT_NAME s1 \<noteq> EMPTY_VALUE
                then s1\<lparr>base_object_common :=
                         dict_set (base_object_common s1) ''component_name'' (COMPONENT_NAME s1)\<rparr>
                else s1)
      in if truthy (COMPONENT_INSTANCE_INDEX s2) \<and> COMPONENT_INSTANCE_INDEX s2 \<noteq> EMPTY_VALUE
         then s2\<lparr>base_object_common :=
                  dict_set (base_object_common s2) ''component_instance_idx''
                    (COMPONENT_INSTANCE_INDEX s2)\<rparr>
         else s2)"

text \<open>The classes of the module itself and of the logging library.\<close>

definition Formatter_class :: pyclass where
  "Formatter_class = PyClass ''Formatter'' []"

definition BaseJSONFormatter_class :: pyclass where
  "BaseJSONFormatter_class = PyClass ''BaseJSONFormatter'' [''Formatter'']"

definition JSONRequestLogFormatter_class :: pyclass where
  "JSONRequestLogFormatter_class =
     PyClass ''JSONRequestLogFormatter'' [''BaseJSONFormatter'', ''Formatter'']"

definition JSONLogFormatter_class :: pyclass where
  "JSONLogFormatter_class = PyClass ''JSONLogFormatter'' [''BaseJSONFormatter'', ''Formatter'']"

definition JSONLogWebFormatter_class :: pyclass where
  "JSONLogWebFormatter_class =
     PyClass ''JSONLogWebFormatter'' [''JSONLogFormatter'', ''BaseJSONFormatter'', ''Formatter'']"

definition RequestResponseDTOBase_class :: pyclass where
  "RequestResponseDTOBase_class = PyClass ''RequestResponseDTOBase'' [''dict'']"

definition DefaultRequestResponseDTO_class :: pyclass where
  "DefaultRequestResponseDTO_class =
     PyClass ''DefaultRequestResponseDTO'' [''RequestResponseDTOBase'', ''dict'']"

text \<open>
  Calling a formatter class. A subclass of \<open>BaseJSONFormatter\<close> runs the constructor above
  (the three subclasses in the module define no constructor of their own; a custom
  subclass is taken to call it too); the constructor of any other formatter class is taken
  to leave the globals alone.
\<close>

definition new_formatter ::
  "pyclass \<Rightarrow> ('ru, 'x) globals \<Rightarrow> formatter \<times> ('ru, 'x) globals" where
  "new_formatter c s =
     (\<lparr>fmt_class = c\<rparr>,
      if issubclass c ''BaseJSONFormatter'' then BaseJSONFormatter_init s else s)"

text \<open>
  Modelled from the spec: \<open>json_logging.util.update_formatter_for_loggers\<close> is not part of
  the source file. The spec has initialization install "the formatter onto the
  process-wide default and onto every already-created logger instance at call time":
  every handler of every given logger gets a new instance of the formatter class.
\<close>

fun update_handlers ::
  "pyclass \<Rightarrow> handler list \<Rightarrow> ('ru, 'x) globals \<Rightarrow> handler list \<times> ('ru, 'x) globals" where
  "update_handlers c [] s = ([], s)"
| "update_handlers c (h # hs) s =
     (let (f, s1) = new_formatter c s;
          (hs', s2) = update_handlers c hs s1
      in (h\<lparr>h_formatter := Some f\<rparr> # hs', s2))"

text \<open>\<open>logging.getLogger(name)\<close>: the logger of that name, created when there is none.\<close>

definition getLogger :: "string \<Rightarrow> ('ru, 'x) globals \<Rightarrow> logger" where
  "getLogger name s =
     (case dict_get (loggerDict s) name of
        Some lg \<Rightarrow> lg
      | None \<Rightarrow> \<lparr>lg_level = None, lg_handlers = [], lg_parent = Some ''root''\<rparr>)"

fun update_formatter_for_loggers ::
  "string list \<Rightarrow> pyclass \<Rightarrow> ('ru, 'x) globals \<Rightarrow> ('ru, 'x) globals" where
  "update_formatter_for_loggers [] c s = s"
| "update_formatter_for_loggers (name # names) c s =
     (let lg = getLogger name s;
          (hs, s1) = update_handlers c (lg_handlers lg) s
      in update_formatter_for_loggers names c
           (s1\<lparr>loggerDict := dict_set (loggerDict s1) name (lg\<lparr>lg_handlers := hs\<rparr>)\<rparr>))"

section \<open>Initialization\<close>

text \<open>
  The collaborators outside the source file that initialization calls: the constructor
  \<open>util.RequestUtil\<close>, the \<open>config()\<close> of a framework's app pre-configurator, and the
  \<open>config(app, ...)\<close> of a framework's request instrumentation configurator, which works
  on the application \<open>'app\<close> and names the request logger it created.
\<close>

record ('ru, 'x, 'app) env =
  RequestUtil :: "pyclass \<Rightarrow> pyclass \<Rightarrow> 'ru"
  app_configurator_config :: "pyclass \<Rightarrow> 'x \<Rightarrow> error + 'x"
  instrumentation_config ::
    "pyclass \<Rightarrow> 'app \<Rightarrow> pyclass \<Rightarrow> string list \<Rightarrow> 'x \<Rightarrow> (error + string) \<times> 'app \<times> 'x"

definition str_of_name :: "string option \<Rightarrow> string" where
  "str_of_name n = (case n of None \<Rightarrow> ''None'' | Some x \<Rightarrow> x)"

definition invalid_formatter :: "pyclass option \<Rightarrow> bool" where
  "invalid_formatter custom_formatter =
     (case custom_formatter of None \<Rightarrow> False | Some c \<Rightarrow> \<not> issubclass c ''Formatter'')"

definition formatter_or :: "pyclass option \<Rightarrow> pyclass \<Rightarrow> pyclass" where
  "formatter_or custom_formatter dflt = (case custom_formatter of Some c \<Rightarrow> c | None \<Rightarrow> dflt)"

text \<open>
  The block \<open>if framework_name: ... else: ...\<close> of \<open>__init\<close>. It returns the class it
  stored in \<open>_default_formatter\<close>. A name that is \<open>None\<close> or empty takes the \<open>else\<close>
  branch. The lookup covers both the membership test and the subscript.
\<close>

definition init_framework ::
  "('ru, 'x, 'app) env \<Rightarrow> string option \<Rightarrow> pyclass option \<Rightarrow> ('ru, 'x) globals \<Rightarrow>
   (error + pyclass) \<times> ('ru, 'x) globals" where
  "init_framework E framework_name custom_formatter s =
     (if framework_name \<noteq> None \<and> framework_name \<noteq> Some [] then
        (let name = lower (str_of_name framework_name)
         in case dict_get (framework_support_map s) name of
              None \<Rightarrow> (Inl (RuntimeError (name @ '' is not a supported framework'')), s)
            | Some fw \<Rightarrow>
              (let s1 = s\<lparr>current_framework := Some fw,
                          request_util := Some (RequestUtil E (request_adapter_class fw)
                                                 (response_adapter_class fw))\<rparr>
               in case (if ENABLE_JSON_LOGGING s1
                        then (case app_configurator fw of
                                None \<Rightarrow> Inr (framework_world s1)
                              | Some c \<Rightarrow> app_configurator_config E c (framework_world s1))
                        else Inr (framework_world s1)) of
                    Inl e \<Rightarrow> (Inl e, s1)
                  | Inr x \<Rightarrow>
                    (let fc = formatter_or custom_formatter JSONLogWebFormatter_class
                     in (Inr fc, s1\<lparr>framework_world := x, default_formatter := Some fc\<rparr>))))
      else
        (let fc = formatter_or custom_formatter JSONLogFormatter_class
         in (Inr fc, s\<lparr>default_formatter := Some fc\<rparr>)))"

definition quoted :: "string \<Rightarrow> string" where
  "quoted w = CHR 0x27 # w @ [CHR 0x27]"

definition json_not_enabled_warning :: string where
  "json_not_enabled_warning =
     ''JSON format is not enabled, normal log will be in plain text but request logging still in JSON format! ''
     @ ''To enable set ENABLE_JSON_LOGGING env var to either one of following values: [''
     @ quoted ''true'' @ '', '' @ quoted ''1'' @ '', '' @ quoted ''y'' @ '', '' @ quoted ''yes''
     @ '']''"

text \<open>
  \<open>__init\<close>. The assignment to \<open>ENABLE_JSON_LOGGING\<close> is the first statement, before the
  guard on \<open>_current_framework\<close>. An exception leaves the assignments made before it in
  place, so the globals are returned in both outcomes.
\<close>

definition init ::
  "('ru, 'x, 'app) env \<Rightarrow> string option \<Rightarrow> pyclass option \<Rightarrow> bool \<Rightarrow> ('ru, 'x) globals \<Rightarrow>
   (error + unit) \<times> ('ru, 'x) globals" where
  "init E framework_name custom_formatter enable_json s0 =
     (let s1 = s0\<lparr>ENABLE_JSON_LOGGING := enable_json\<rparr>
      in if current_framework s1 \<noteq> None then
           (Inl (RuntimeError ''Can not call init more than once''), s1)
         else if invalid_formatter custom_formatter then
           (Inl (ValueError ''custom_formatter is not subclass of logging.Formatter''), s1)
         else
           (let s2 = debug_call INFO (''init framework '' @ str_of_name framework_name) s1
            in case init_framework E framework_name custom_formatter s2 of
                 (Inl e, s3) \<Rightarrow> (Inl e, s3)
               | (Inr fc, s3) \<Rightarrow>
                 (let s4 = (if \<not> enable_json \<and> \<not> ENABLE_JSON_LOGGING s3 then
                              s3\<lparr>logger_calls :=
                                   logger_calls s3 @ [(WARNING, json_not_enabled_warning)]\<rparr>
                            else
                              (let (f, s') = new_formatter fc (s3\<lparr>ENABLE_JSON_LOGGING := True\<rparr>)
                               in s'\<lparr>logging_defaultFormatter := f\<rparr>));
                      s5 = debug_call DEBUG
                             ''Update all existing logger to using JSONLogFormatter'' s4
                  in (Inr (), update_formatter_for_loggers (dict_keys (loggerDict s5)) fc s5))))"

definition init_non_web ::
  "('ru, 'x, 'app) env \<Rightarrow> string option \<Rightarrow> pyclass option \<Rightarrow> bool \<Rightarrow> ('ru, 'x) globals \<Rightarrow>
   (error + unit) \<times> ('ru, 'x) globals" where
  "init_non_web E framework_name custom_formatter enable_json s =
     init E framework_name custom_formatter enable_json s"

definition init_flask ::
  "('ru, 'x, 'app) env \<Rightarrow> pyclass option \<Rightarrow> bool \<Rightarrow> ('ru, 'x) globals \<Rightarrow>
   (error + unit) \<times> ('ru, 'x) globals" where
  "init_flask E custom_formatter enable_json s =
     init E (Some ''flask'') custom_formatter enable_json s"

definition init_sanic ::
  "('ru, 'x, 'app) env \<Rightarrow> pyclass option \<Rightarrow> bool \<Rightarrow> ('ru, 'x) globals \<Rightarrow>
   (error + unit) \<times> ('ru, 'x) globals" where
  "init_sanic E custom_formatter enable_json s =
     init E (Some ''sanic'') custom_formatter enable_json s"

definition init_quart ::
  "('ru, 'x, 'app) env \<Rightarrow> pyclass option \<Rightarrow> bool \<Rightarrow> ('ru, 'x) globals \<Rightarrow>
   (error + unit) \<times> ('ru, 'x) globals" where
  "init_quart E custom_formatter enable_json s =
     init E (Some ''quart'') custom_formatter enable_json s"

definition init_connexion ::
  "('ru, 'x, 'app) env \<Rightarrow> pyclass option \<Rightarrow> bool \<Rightarrow> ('ru, 'x) globals \<Rightarrow>
   (error + unit) \<times> ('ru, 'x) globals" where
  "init_connexion E custom_formatter enable_json s =
     init E (Some ''connexion'') custom_formatter enable_json s"

definition init_fastapi ::
  "('ru, 'x, 'app) env \<Rightarrow> pyclass option \<Rightarrow> bool \<Rightarrow> ('ru, 'x) globals \<Rightarrow>
   (error + unit) \<times> ('ru, 'x) globals" where
  "init_fastapi E custom_formatter enable_json s =
     init E (Some ''fastapi'') custom_formatter enable_json s"

text \<open>
  \<open>init_request_instrument\<close>. \<open>_current_framework == '-'\<close> is false for \<open>None\<close> and for a
  registry entry, the only values the module ever stores, so the guard is the test for
  \<open>None\<close>. The application is returned with the outcome.
\<close>

definition init_request_instrument ::
  "('ru, 'x, 'app) env \<Rightarrow> 'app \<Rightarrow> pyclass option \<Rightarrow> string list \<Rightarrow> pyclass \<Rightarrow>
   ('ru, 'x) globals \<Rightarrow> (error + unit) \<times> 'app \<times> ('ru, 'x) globals" where
  "init_request_instrument E app custom_formatter exclude_url_patterns extractor_class s =
     (case current_framework s of
        None \<Rightarrow>
          (Inl (RuntimeError ''please init the logging first, call init(framework_name) first''),
           app, s)
      | Some fw \<Rightarrow>
        if invalid_formatter custom_formatter then
          (Inl (ValueError ''custom_formatter is not subclass of logging.Formatter''), app, s)
        else if \<not> issubclass extractor_class ''RequestResponseDTOBase'' then
          (Inl (ValueError
             ''request_response_data_extractor_class is not subclass of json_logging.RequestInfoBase''),
           app, s)
        else
          (case instrumentation_config E (app_request_instrumentation_configurator fw) app
                  extractor_class exclude_url_patterns (framework_world s) of
             (Inl e, app', x) \<Rightarrow> (Inl e, app', s\<lparr>framework_world := x\<rparr>)
           | (Inr request_logger, app', x) \<Rightarrow>
             (let fc = formatter_or custom_formatter JSONRequestLogFormatter_class;
                  s1 = s\<lparr>framework_world := x\<rparr>;
                  lg = getLogger request_logger s1;
                  lg1 = lg\<lparr>lg_level := Some DEBUG,
                          lg_handlers := lg_handlers lg @
                            [\<lparr>h_stream = ''stdout'', h_formatter = None\<rparr>]\<rparr>;
                  s2 = s1\<lparr>loggerDict := dict_set (loggerDict s1) request_logger lg1\<rparr>;
                  s3 = update_formatter_for_loggers [request_logger] fc s2;
                  lg3 = getLogger request_logger s3
              in (Inr (), app',
                  s3\<lparr>loggerDict :=
                       dict_set (loggerDict s3) request_logger (lg3\<lparr>lg_parent := None\<rparr>)\<rparr>))))"

section \<open>The globals after the module is imported\<close>

text \<open>
  The module body: the initial values of the globals, then the registrations of the
  bundled frameworks, in source order. The adapter and configurator classes live in
  \<open>json_logging.framework.*\<close>; each derives from the contract it is registered under.
  \<open>env_toggle\<close> is the value of \<open>is_env_var_toggle("ENABLE_JSON_LOGGING")\<close> and
  \<open>fastapi_present\<close> that of \<open>fastapi_support.is_fastapi_present()\<close>.
\<close>

definition initial_globals :: "bool \<Rightarrow> logger dict \<Rightarrow> 'x \<Rightarrow> ('ru, 'x) globals" where
  "initial_globals env_toggle loggers x =
     \<lparr>ENABLE_JSON_LOGGING = env_toggle,
      ENABLE_JSON_LOGGING_DEBUG = False,
      COMPONENT_ID = EMPTY_VALUE,
      COMPONENT_NAME = EMPTY_VALUE,
      COMPONENT_INSTANCE_INDEX = PInt 0,
      framework_support_map = [],
      current_framework = None,
      request_util = None,
      default_formatter = None,
      base_object_common = [],
      logger_calls = [],
      logging_defaultFormatter = \<lparr>fmt_class = Formatter_class\<rparr>,
      loggerDict = loggers,
      framework_world = x\<rparr>"

definition bundled_entry :: "string \<Rightarrow> bool \<Rightarrow> framework_entry" where
  "bundled_entry prefix has_app_configurator =
     \<lparr>app_configurator =
        (if has_app_configurator
         then Some (PyClass (prefix @ ''AppConfigurator'') [''FrameworkConfigurator''])
         else None),
      app_request_instrumentation_configurator =
        PyClass (prefix @ ''AppRequestInstrumentationConfigurator'')
          [''AppRequestInstrumentationConfigurator''],
      request_adapter_class = PyClass (prefix @ ''RequestAdapter'') [''RequestAdapter''],
      response_adapter_class = PyClass (prefix @ ''ResponseAdapter'') [''ResponseAdapter'']\<rparr>"

definition register_bundled ::
  "string \<Rightarrow> framework_entry \<Rightarrow> ('ru, 'x) globals \<Rightarrow> ('ru, 'x) globals" where
  "register_bundled name fw s =
     snd (register_framework_support (Some name) (app_configurator fw)
            (app_request_instrumentation_configurator fw)
            (request_adapter_class fw) (response_adapter_class fw) s)"

definition module_globals :: "bool \<Rightarrow> bool \<Rightarrow> logger dict \<Rightarrow> 'x \<Rightarrow> ('ru, 'x) globals" where
  "module_globals env_toggle fastapi_present loggers x =
     (let s1 = register_bundled ''flask'' (bundled_entry ''Flask'' False)
                 (initial_globals env_toggle loggers x);
          s2 = register_bundled ''sanic'' (bundled_entry ''Sanic'' True) s1;
          s3 = register_bundled ''quart'' (bundled_entry ''Quart'' False) s2;
          s4 = register_bundled ''connexion'' (bundled_entry ''Connexion'' False) s3
      in if fastapi_present
         then register_bundled ''fastapi'' (bundled_entry ''FastAPI'' False) s4 else s4)"

section \<open>Time\<close>

text \<open>
  A naive UTC \<open>datetime\<close> is its number of microseconds since the epoch. A \<open>timedelta\<close> is
  normalised as Python keeps it: \<open>0 \<le> seconds < 86400\<close> and \<open>0 \<le> microseconds < 10^6\<close>,
  the sign carried by \<open>days\<close>.
\<close>

type_synonym datetime = int

record timedelta =
  days :: int
  seconds :: int
  microseconds :: int

definition datetime_sub :: "datetime \<Rightarrow> datetime \<Rightarrow> timedelta" where
  "datetime_sub a b =
     (let us = a - b
      in \<lparr>days = us div 86400000000,
          seconds = (us mod 86400000000) div 1000000,
          microseconds = us mod 1000000\<rparr>)"

text \<open>
  Python 3's \<open>a / b\<close> on two ints is the IEEE 754 double nearest to the exact quotient,
  ties to even. A double is kept as the rational number it denotes. \<open>rne\<close> rounds to the
  nearest integer, ties to even. \<open>expo x\<close> is the binary exponent of a positive \<open>x\<close>, the
  greatest \<open>e \<le> 1023\<close> with \<open>2^e \<le> x\<close>, and \<open>-1022\<close> for the subnormal range below
  \<open>2^-1022\<close>; a double has 53 significant bits, so its last bit weighs \<open>2^(expo x - 52)\<close>.
  A quotient that rounds to \<open>2^1024\<close> or more raises \<open>OverflowError\<close>.
\<close>

definition rne :: "rat \<Rightarrow> int" where
  "rne x =
     (let f = \<lfloor>x\<rfloor>; d = x - of_int f
      in if d < 1 / 2 then f
         else if 1 / 2 < d then f + 1
         else if even f then f else f + 1)"

fun expo_from :: "nat \<Rightarrow> int \<Rightarrow> rat \<Rightarrow> int" where
  "expo_from 0 e x = e"
| "expo_from (Suc n) e x = (if 2 powi e \<le> x then e else expo_from n (e - 1) x)"

definition expo :: "rat \<Rightarrow> int" where
  "expo x = expo_from 2045 1023 x"

definition round_double :: "rat \<Rightarrow> rat" where
  "round_double x = (let p = expo x - 52 in of_int (rne (x / 2 powi p)) * 2 powi p)"

definition truediv :: "int \<Rightarrow> int \<Rightarrow> error + rat" where
  "truediv a b =
     (if b = 0 then Inl (ZeroDivisionError ''division by zero'')
      else
        (let q = of_int a / of_int b;
             r = round_double \<bar>q\<bar>
         in if 2 powi 1024 \<le> r
            then Inl (OverflowError ''integer division result too large for a float'')
            else Inr (sgn q * r)))"

text \<open>
  \<open>timedelta.total_seconds()\<close>: the whole delta in microseconds, divided by \<open>10**6\<close>.
  \<open>int(x)\<close> on a float truncates towards zero.
\<close>

definition total_seconds :: "timedelta \<Rightarrow> error + rat" where
  "total_seconds td =
     truediv ((days td * 86400 + seconds td) * 1000000 + microseconds td) 1000000"

definition py_int :: "rat \<Rightarrow> int" where
  "py_int x = (if 0 \<le> x then \<lfloor>x\<rfloor> else \<lceil>x\<rceil>)"

section \<open>The lifecycle data carrier\<close>

text \<open>
  The functions this part of the module calls but does not define: \<open>iso_time_format\<close>,
  \<open>epoch_nano_second\<close> and \<open>parse_int\<close> of \<open>json_logging.util\<close>, \<open>LogRecord.getMessage\<close>
  (a function of \<open>msg\<close> and \<open>args\<close>, which raises on arguments that do not fit the format),
  \<open>traceback.format_exception\<close> joined to one string, \<open>repr\<close>, and the configurable
  \<open>JSON_SERIALIZER\<close>.
\<close>

record lib =
  iso_time_format :: "datetime \<Rightarrow> string"
  epoch_nano_second :: "datetime \<Rightarrow> int"
  parse_int :: "pyval \<Rightarrow> int \<Rightarrow> int"
  getMessage :: "pyval \<Rightarrow> pyval \<Rightarrow> error + string"
  format_exception :: "pyval \<Rightarrow> error + string"
  repr :: "pyval \<Rightarrow> string"
  JSON_SERIALIZER :: "pyval dict \<Rightarrow> string"

text \<open>
  An instance of \<open>RequestResponseDTOBase\<close> or of \<open>DefaultRequestResponseDTO\<close>: the dict it
  is, and its attributes \<open>_request\<close>, \<open>_response\<close> (absent until \<open>on_request_complete\<close>) and
  \<open>_request_start\<close> (absent in the base class).
\<close>

record ('rq, 'rs) dto =
  dto_items :: "pyval dict"
  dto_request :: 'rq
  dto_response :: "'rs option"
  dto_request_start :: "datetime option"

definition RequestResponseDTOBase_init :: "'rq \<Rightarrow> pyval dict \<Rightarrow> ('rq, 'rs) dto" where
  "RequestResponseDTOBase_init request kwargs =
     \<lparr>dto_items = dict_update [] kwargs, dto_request = request, dto_response = None,
      dto_request_start = None\<rparr>"

definition RequestResponseDTOBase_on_request_complete ::
  "'rs \<Rightarrow> ('rq, 'rs) dto \<Rightarrow> ('rq, 'rs) dto" where
  "RequestResponseDTOBase_on_request_complete response d = d\<lparr>dto_response := Some response\<rparr>"

text \<open>\<open>DefaultRequestResponseDTO.__init__\<close>; \<open>now\<close> is what \<open>datetime.utcnow()\<close> returns.\<close>

definition DefaultRequestResponseDTO_init ::
  "lib \<Rightarrow> datetime \<Rightarrow> 'rq \<Rightarrow> pyval dict \<Rightarrow> ('rq, 'rs) dto" where
  "DefaultRequestResponseDTO_init L now request kwargs =
     (let d = RequestResponseDTOBase_init request kwargs;
          utcnow = now
      in d\<lparr>dto_request_start := Some utcnow,
           dto_items := dict_set (dto_items d) ''request_received_at''
                          (PStr (iso_time_format L utcnow))\<rparr>)"

text \<open>
  \<open>DefaultRequestResponseDTO.on_request_complete\<close>, on Python 3, where both divisions are
  true divisions.
\<close>

definition on_request_complete ::
  "lib \<Rightarrow> datetime \<Rightarrow> 'rs \<Rightarrow> ('rq, 'rs) dto \<Rightarrow> error + ('rq, 'rs) dto" where
  "on_request_complete L now response d0 =
     (let d = RequestResponseDTOBase_on_request_complete response d0;
          utcnow = now
      in case dto_request_start d of
           None \<Rightarrow> Inl (AttributeError ''_request_start'')
         | Some start \<Rightarrow>
           (let time_delta = datetime_sub utcnow start
            in case total_seconds time_delta of
                 Inl e \<Rightarrow> Inl e
               | Inr ts \<Rightarrow>
               (case truediv (microseconds time_delta) 1000 of
                 Inl e \<Rightarrow> Inl e
               | Inr ms \<Rightarrow>
                 (let d1 = d\<lparr>dto_items := dict_set (dto_items d) ''response_time_ms''
                             (PInt (py_int ts * 1000 + py_int ms))\<rparr>
                  in Inr (d1\<lparr>dto_items := dict_set (dto_items d1) ''response_sent_at''
                               (PStr (iso_time_format L utcnow))\<rparr>)))))"

section \<open>Log records, adapters and the formatter pipeline\<close>

text \<open>
  A \<open>LogRecord\<close>: the attributes the formatters read, which its constructor always sets;
  the rest of its \<open>__dict__\<close> in \<open>r_other\<close> (the remaining attributes of the logging
  library and whatever was passed as \<open>extra\<close>, \<open>props\<close> among them); and the carrier that a
  request log statement attaches as \<open>request_response_data\<close>.
\<close>

record ('rq, 'rs) log_record =
  r_name :: pyval
  r_msg :: pyval
  r_args :: pyval
  r_levelname :: pyval
  r_filename :: pyval
  r_module :: pyval
  r_exc_info :: pyval
  r_exc_text :: pyval
  r_lineno :: pyval
  r_threadName :: pyval
  r_other :: "pyval dict"
  request_response_data :: "('rq, 'rs) dto option"

text \<open>
  \<open>record.__dict__.items()\<close>. A carrier is a \<open>dict\<close>, so as a value it is the dict of its
  items.
\<close>

definition record_dict_items :: "('rq, 'rs) log_record \<Rightarrow> pyval dict" where
  "record_dict_items r =
     [(''name'', r_name r), (''msg'', r_msg r), (''args'', r_args r),
      (''levelname'', r_levelname r), (''filename'', r_filename r), (''module'', r_module r),
      (''exc_info'', r_exc_info r), (''exc_text'', r_exc_text r), (''lineno'', r_lineno r),
      (''threadName'', r_threadName r)]
     @ r_other r
     @ (case request_response_data r of
          None \<Rightarrow> []
        | Some d \<Rightarrow> [(''request_response_data'', PDict (dto_items d))])"

text \<open>\<open>RECORD_ATTR_SKIP_LIST\<close> on Python 3, where \<open>stack_info\<close> is appended.\<close>

definition RECORD_ATTR_SKIP_LIST :: "string list" where
  "RECORD_ATTR_SKIP_LIST =
     [''asctime'', ''created'', ''exc_info'', ''exc_text'', ''filename'', ''args'',
      ''funcName'', ''id'', ''levelname'', ''levelno'', ''lineno'', ''module'', ''msg'',
      ''msecs'', ''msecs'', ''message'', ''name'', ''pathname'', ''process'',
      ''processName'', ''relativeCreated'', ''thread'', ''threadName'', ''extra'',
      ''props'', ''stack_info'']"

text \<open>\<open>isinstance(value, EASY_TYPES)\<close>: str, bool, dict, float, int, list, NoneType.\<close>

fun is_easy :: "pyval \<Rightarrow> bool" where
  "is_easy (PObj n t) = False"
| "is_easy (PTuple xs) = False"
| "is_easy v = True"

text \<open>\<open>BaseJSONFormatter._get_extra_fields\<close>.\<close>

definition extra_field :: "lib \<Rightarrow> string \<times> pyval \<Rightarrow> pyval dict \<Rightarrow> pyval dict" where
  "extra_field L = (\<lambda>(key, v) fields.
     if key \<notin> set RECORD_ATTR_SKIP_LIST
     then dict_set fields key (if is_easy v then v else PStr (repr L v))
     else fields)"

definition get_extra_fields :: "lib \<Rightarrow> ('rq, 'rs) log_record \<Rightarrow> pyval dict" where
  "get_extra_fields L r =
     (let fields0 = (if truthy (r_args r) then dict_set [] ''msg'' (r_msg r) else []);
          fields1 = fold (extra_field L) (record_dict_items r) fields0
      in case dict_get (r_other r) ''props'' of
           Some (PDict props) \<Rightarrow> dict_update fields1 props
         | _ \<Rightarrow> fields1)"

text \<open>
  \<open>BaseJSONFormatter._format_log_object\<close>. \<open>boc\<close> is the dict that
  \<open>self.base_object_common\<close> finds and \<open>now\<close> the reading of \<open>datetime.utcnow()\<close>.
\<close>

definition BaseJSONFormatter_format_log_object ::
  "lib \<Rightarrow> pyval dict \<Rightarrow> datetime \<Rightarrow> ('rq, 'rs) log_record \<Rightarrow> pyval dict" where
  "BaseJSONFormatter_format_log_object L boc now r =
     (let utcnow = now;
          base_obj = [(''written_at'', PStr (iso_time_format L utcnow)),
                      (''written_ts'', PInt (epoch_nano_second L utcnow))];
          base_obj1 = dict_update base_obj boc
      in dict_update base_obj1 (get_extra_fields L r))"

text \<open>
  The adapters are the capability interface of the web frameworks. Their accessors only
  read the request or the response; \<open>set_correlation_id\<close> returns the request with the id
  stored on it. A \<open>RequestUtil\<close> holds one adapter of each kind; its \<open>get_correlation_id\<close>
  takes the request (or \<open>None\<close>), the flag \<open>within_formatter\<close> and the state \<open>'g\<close> of the id
  generator, and returns the id with the request and the generator as it left them.
\<close>

record 'rq request_adapter =
  get_http_header :: "'rq \<Rightarrow> string \<Rightarrow> pyval \<Rightarrow> pyval"
  get_remote_user :: "'rq \<Rightarrow> pyval"
  get_path :: "'rq \<Rightarrow> pyval"
  get_protocol :: "'rq \<Rightarrow> pyval"
  get_method :: "'rq \<Rightarrow> pyval"
  get_remote_ip :: "'rq \<Rightarrow> pyval"
  get_remote_port :: "'rq \<Rightarrow> pyval"
  get_content_length :: "'rq \<Rightarrow> pyval"
  get_correlation_id_in_request :: "'rq \<Rightarrow> string option"
  set_correlation_id :: "'rq \<Rightarrow> string \<Rightarrow> 'rq"

record 'rs response_adapter =
  get_status_code :: "'rs \<Rightarrow> pyval"
  get_response_size :: "'rs \<Rightarrow> pyval"
  get_content_type :: "'rs \<Rightarrow> pyval"

record ('rq, 'rs, 'g) request_util_obj =
  request_adapter :: "'rq request_adapter"
  response_adapter :: "'rs response_adapter"
  ru_get_correlation_id :: "'rq option \<Rightarrow> bool \<Rightarrow> 'g \<Rightarrow> string \<times> 'rq option \<times> 'g"

text \<open>
  The dict literal of \<open>JSONRequestLogFormatter._format_log_object\<close>, its values evaluated
  in source order on the request as the id resolution left it.
\<close>

definition request_fields ::
  "lib \<Rightarrow> 'rq request_adapter \<Rightarrow> 'rs response_adapter \<Rightarrow> string \<Rightarrow> 'rq \<Rightarrow> 'rs \<Rightarrow>
   pyval \<Rightarrow> pyval dict" where
  "request_fields L req_ad resp_ad cid request response content_length =
     [(''type'', PStr ''request''),
      (''correlation_id'', PStr cid),
      (''remote_user'', get_remote_user req_ad request),
      (''request'', get_path req_ad request),
      (''referer'', get_http_header req_ad request ''referer'' EMPTY_VALUE),
      (''x_forwarded_for'',
         get_http_header req_ad request ''x-forwarded-for'' EMPTY_VALUE),
      (''protocol'', get_protocol req_ad request),
      (''method'', get_method req_ad request),
      (''remote_ip'', get_remote_ip req_ad request),
      (''request_size_b'', PInt (parse_int L content_length (- 1))),
      (''remote_host'', get_remote_ip req_ad request),
      (''remote_port'', get_remote_port req_ad request),
      (''response_status'', get_status_code resp_ad response),
      (''response_size_b'', get_response_size resp_ad response),
      (''response_content_type'', get_content_type resp_ad response)]"

text \<open>
  \<open>JSONRequestLogFormatter._format_log_object\<close>. The response adapter is read from the
  global \<open>_request_util\<close> (\<open>g_ru\<close>), the request adapter from the parameter
  \<open>request_util\<close> (\<open>ru\<close>). A missing object or attribute raises \<open>AttributeError\<close>.
\<close>

definition JSONRequestLogFormatter_format_log_object ::
  "lib \<Rightarrow> pyval dict \<Rightarrow> ('rq, 'rs, 'g) request_util_obj option \<Rightarrow> datetime \<Rightarrow>
   ('rq, 'rs) log_record \<Rightarrow> ('rq, 'rs, 'g) request_util_obj option \<Rightarrow> 'g \<Rightarrow>
   error + (pyval dict \<times> 'rq \<times> 'g)" where
  "JSONRequestLogFormatter_format_log_object L boc g_ru now r ru g =
     (let json_log_object = BaseJSONFormatter_format_log_object L boc now r
      in case ru of
           None \<Rightarrow> Inl (AttributeError ''request_adapter'')
         | Some u \<Rightarrow>
         (case g_ru of
           None \<Rightarrow> Inl (AttributeError ''response_adapter'')
         | Some gu \<Rightarrow>
         (case request_response_data r of
           None \<Rightarrow> Inl (AttributeError ''request_response_data'')
         | Some d \<Rightarrow>
         (case dto_response d of
           None \<Rightarrow> Inl (AttributeError ''_response'')
         | Some response \<Rightarrow>
           (let request = dto_request d;
                content_length = get_content_length (request_adapter u) request;
                (cid, q, g') = ru_get_correlation_id u (Some request) False g;
                request' = (case q of Some x \<Rightarrow> x | None \<Rightarrow> request);
                json_log_object1 = dict_update json_log_object
                  (request_fields L (request_adapter u) (response_adapter gu) cid
                     request' response content_length)
            in Inr (dict_update json_log_object1 (dto_items d), request', g'))))))"

text \<open>\<open>_sanitize_log_msg\<close>, applied to the result of \<open>record.getMessage()\<close>.\<close>

definition sanitize :: "string \<Rightarrow> string" where
  "sanitize m =
     map (\<lambda>c. if c = CHR 0x0A \<or> c = CHR 0x0D \<or> c = CHR 0x09 then CHR ''_'' else c) m"

definition sanitize_log_msg :: "lib \<Rightarrow> ('rq, 'rs) log_record \<Rightarrow> error + string" where
  "sanitize_log_msg L r =
     (case getMessage L (r_msg r) (r_args r) of
        Inl e \<Rightarrow> Inl e
      | Inr m \<Rightarrow> Inr (sanitize m))"

text \<open>\<open>JSONLogFormatter.get_exc_fields\<close> with \<open>format_exception\<close>.\<close>

definition get_exc_fields :: "lib \<Rightarrow> ('rq, 'rs) log_record \<Rightarrow> error + pyval dict" where
  "get_exc_fields L r =
     (case (if truthy (r_exc_info r)
            then (case format_exception L (r_exc_info r) of
                    Inl e \<Rightarrow> Inl e
                  | Inr t \<Rightarrow> Inr (PStr t))
            else Inr (r_exc_text r)) of
        Inl e \<Rightarrow> Inl e
      | Inr exc_info \<Rightarrow> Inr [(''exc_info'', exc_info), (''filename'', r_filename r)])"

text \<open>\<open>JSONLogFormatter._format_log_object\<close>; the parameter \<open>request_util\<close> is not used.\<close>

definition JSONLogFormatter_format_log_object ::
  "lib \<Rightarrow> pyval dict \<Rightarrow> datetime \<Rightarrow> ('rq, 'rs) log_record \<Rightarrow> error + pyval dict" where
  "JSONLogFormatter_format_log_object L boc now r =
     (let json_log_object = BaseJSONFormatter_format_log_object L boc now r
      in case sanitize_log_msg L r of
           Inl e \<Rightarrow> Inl e
         | Inr m \<Rightarrow>
           (let json_log_object1 = dict_update json_log_object
                  [(''msg'', PStr m),
                   (''type'', PStr ''log''),
                   (''logger'', r_name r),
                   (''thread'', r_threadName r),
                   (''level'', r_levelname r),
                   (''module'', r_module r),
                   (''line_no'', r_lineno r)]
            in if truthy (r_exc_info r) \<or> truthy (r_exc_text r) then
                 (case get_exc_fields L r of
                    Inl e \<Rightarrow> Inl e
                  | Inr exc \<Rightarrow> Inr (dict_update json_log_object1 exc))
               else Inr json_log_object1))"

text \<open>\<open>JSONLogWebFormatter._format_log_object\<close>.\<close>

definition JSONLogWebFormatter_format_log_object ::
  "lib \<Rightarrow> pyval dict \<Rightarrow> datetime \<Rightarrow> ('rq, 'rs) log_record \<Rightarrow>
   ('rq, 'rs, 'g) request_util_obj option \<Rightarrow> 'g \<Rightarrow> error + (pyval dict \<times> 'g)" where
  "JSONLogWebFormatter_format_log_object L boc now r ru g =
     (case JSONLogFormatter_format_log_object L boc now r of
        Inl e \<Rightarrow> Inl e
      | Inr json_log_object \<Rightarrow>
        if \<not> dict_contains ''correlation_id'' json_log_object then
          (case ru of
             None \<Rightarrow> Inl (AttributeError ''get_correlation_id'')
           | Some u \<Rightarrow>
             (let (cid, q, g') = ru_get_correlation_id u None True g
              in Inr (dict_update json_log_object [(''correlation_id'', PStr cid)], g')))
        else Inr (json_log_object, g))"

text \<open>
  \<open>BaseJSONFormatter.format\<close>: the method \<open>_format_log_object\<close> of the class of \<open>self\<close>,
  called with the global \<open>_request_util\<close>, then the serializer.
  \<open>self.base_object_common\<close> is the class attribute whatever the instance. The request is
  returned when the request formatter handled one.
\<close>

definition base_object_common_of ::
  "formatter \<Rightarrow> ('ru, 'x) globals \<Rightarrow> pyval dict" where
  "base_object_common_of self s = base_object_common s"

definition format_log_object ::
  "lib \<Rightarrow> formatter \<Rightarrow> datetime \<Rightarrow> ('rq, 'rs) log_record \<Rightarrow>
   (('rq, 'rs, 'g) request_util_obj, 'x) globals \<Rightarrow> 'g \<Rightarrow>
   error + (pyval dict \<times> 'rq option \<times> 'g)" where
  "format_log_object L self now r s g =
     (let boc = base_object_common_of self s;
          ru = request_util s
      in if issubclass (fmt_class self) ''JSONLogWebFormatter'' then
           (case JSONLogWebFormatter_format_log_object L boc now r ru g of
              Inl e \<Rightarrow> Inl e
            | Inr (obj, g') \<Rightarrow> Inr (obj, None, g'))
         else if issubclass (fmt_class self) ''JSONLogFormatter'' then
           (case JSONLogFormatter_format_log_object L boc now r of
              Inl e \<Rightarrow> Inl e
            | Inr obj \<Rightarrow> Inr (obj, None, g))
         else if issubclass (fmt_class self) ''JSONRequestLogFormatter'' then
           (case JSONRequestLogFormatter_format_log_object L boc ru now r ru g of
              Inl e \<Rightarrow> Inl e
            | Inr (obj, request, g') \<Rightarrow> Inr (obj, Some request, g'))
         else Inr (BaseJSONFormatter_format_log_object L boc now r, None, g))"

definition format ::
  "lib \<Rightarrow> formatter \<Rightarrow> datetime \<Rightarrow> ('rq, 'rs) log_record \<Rightarrow>
   (('rq, 'rs, 'g) request_util_obj, 'x) globals \<Rightarrow> 'g \<Rightarrow>
   error + (string \<times> 'rq option \<times> 'g)" where
  "format L self now r s g =
     (case format_log_object L self now r s g of
        Inl e \<Rightarrow> Inl e
      | Inr (log_object, q, g') \<Rightarrow> Inr (JSON_SERIALIZER L log_object, q, g'))"

section \<open>The correlation id resolver\<close>

text \<open>
  The configuration the resolver reads: \<open>CORRELATION_ID_HEADERS\<close> and
  \<open>CREATE_CORRELATION_ID_IF_NOT_EXISTS\<close> of the module, and the generation policy for
  contexts without a request, which the spec names and the source file does not show.
\<close>

record resolver_config =
  correlation_id_headers :: "string list"
  create_correlation_id_if_not_exists :: bool
  create_without_request :: bool

definition CORRELATION_ID_HEADERS :: "string list" where
  "CORRELATION_ID_HEADERS = [''X-Correlation-ID'', ''X-Request-ID'']"

definition CREATE_CORRELATION_ID_IF_NOT_EXISTS :: bool where
  "CREATE_CORRELATION_ID_IF_NOT_EXISTS = True"

text \<open>
  Modelled from the spec: \<open>RequestUtil.get_correlation_id\<close> is defined in
  \<open>json_logging.util\<close>, not in the source file. Section 4.2 of the spec: "1. If request
  is given and the adapter reports an existing id on it, return that. 2. Else scan
  configured header names in declared order; first present non-empty value wins and is
  cached onto the request via the adapter's setter. 3. Else, if generation-on-absence is
  enabled, generate a new id, cache it, and return it. 4. Else return the empty-value
  sentinel. When called with no request, skip steps 1-2 and apply step 3/4 only if a
  generation policy for non-request contexts is enabled; otherwise return the sentinel
  immediately." The header names read are returned next to the id, as the trace of the
  scan. \<open>gen\<close> is \<open>CORRELATION_ID_GENERATOR\<close> on its state.
\<close>

fun scan_headers ::
  "'rq request_adapter \<Rightarrow> 'rq \<Rightarrow> string list \<Rightarrow> string option \<times> string list" where
  "scan_headers ad request [] = (None, [])"
| "scan_headers ad request (h # hs) =
     (case get_http_header ad request h PNone of
        PStr v \<Rightarrow>
          if v \<noteq> [] then (Some v, [h])
          else (let (found, scanned) = scan_headers ad request hs in (found, h # scanned))
      | _ \<Rightarrow> (let (found, scanned) = scan_headers ad request hs in (found, h # scanned)))"

definition resolve ::
  "resolver_config \<Rightarrow> 'rq request_adapter \<Rightarrow> ('g \<Rightarrow> string \<times> 'g) \<Rightarrow> 'rq option \<Rightarrow> bool \<Rightarrow>
   'g \<Rightarrow> (string \<times> string list) \<times> 'rq option \<times> 'g" where
  "resolve cfg ad gen request within_formatter g =
     (case request of
        None \<Rightarrow>
          if create_without_request cfg \<and> create_correlation_id_if_not_exists cfg
          then (let (cid, g') = gen g in ((cid, []), None, g'))
          else ((''-'', []), None, g)
      | Some rq \<Rightarrow>
        (case get_correlation_id_in_request ad rq of
           Some cid \<Rightarrow> ((cid, []), Some rq, g)
         | None \<Rightarrow>
           (case scan_headers ad rq (correlation_id_headers cfg) of
              (Some v, scanned) \<Rightarrow> ((v, scanned), Some (set_correlation_id ad rq v), g)
            | (None, scanned) \<Rightarrow>
                if create_correlation_id_if_not_exists cfg
                then (let (cid, g') = gen g
                      in ((cid, scanned), Some (set_correlation_id ad rq cid), g'))
                else ((''-'', scanned), Some rq, g))))"

text \<open>
  Modelled from the spec: the \<open>RequestUtil\<close> object that \<open>__init\<close> builds from the two
  adapter classes of the framework, here from their instances.
\<close>

definition RequestUtil_obj ::
  "resolver_config \<Rightarrow> ('g \<Rightarrow> string \<times> 'g) \<Rightarrow> 'rq request_adapter \<Rightarrow> 'rs response_adapter \<Rightarrow>
   ('rq, 'rs, 'g) request_util_obj" where
  "RequestUtil_obj cfg gen req_ad resp_ad =
     \<lparr>request_adapter = req_ad,
      response_adapter = resp_ad,
      ru_get_correlation_id =
        (\<lambda>request within_formatter g.
           (let ((cid, scanned), q, g') = resolve cfg req_ad gen request within_formatter g
            in (cid, q, g')))\<rparr>"

text \<open>
  An adapter supports per-request caching when a read after \<open>set_correlation_id\<close> reports
  the id that was set.
\<close>

definition caching_adapter :: "'rq request_adapter \<Rightarrow> bool" where
  "caching_adapter ad \<longleftrightarrow>
     (\<forall>rq v. get_correlation_id_in_request ad (set_correlation_id ad rq v) = Some v)"

text \<open>The module function \<open>get_correlation_id\<close>: it delegates to \<open>_request_util\<close>.\<close>

definition get_correlation_id ::
  "'rq option \<Rightarrow> (('rq, 'rs, 'g) request_util_obj, 'x) globals \<Rightarrow> 'g \<Rightarrow>
   error + (string \<times> 'rq option \<times> 'g)" where
  "get_correlation_id request s g =
     (case request_util s of
        None \<Rightarrow> Inl (AttributeError ''get_correlation_id'')
      | Some u \<Rightarrow> Inr (ru_get_correlation_id u request False g))"

section \<open>Sample collaborators\<close>

text \<open>
  A request that is its headers and the id stored on it, a response that is its status,
  the adapters over them, an id generator that counts, and collaborators of
  initialization that succeed and change nothing. They instantiate the general theorems
  below on concrete inputs.
\<close>

record plain_request =
  pr_headers :: "string dict"
  pr_correlation_id :: "string option"

definition plain_request_adapter :: "plain_request request_adapter" where
  "plain_request_adapter =
     \<lparr>get_http_header = (\<lambda>rq h dflt. case dict_get (pr_headers rq) h of
                                        Some v \<Rightarrow> PStr v | None \<Rightarrow> dflt),
      get_remote_user = (\<lambda>rq. EMPTY_VALUE),
      get_path = (\<lambda>rq. PStr ''/''),
      get_protocol = (\<lambda>rq. PStr ''HTTP/1.1''),
      get_method = (\<lambda>rq. PStr ''GET''),
      get_remote_ip = (\<lambda>rq. PStr ''127.0.0.1''),
      get_remote_port = (\<lambda>rq. PInt 80),
      get_content_length = (\<lambda>rq. PStr ''0''),
      get_correlation_id_in_request = pr_correlation_id,
      set_correlation_id = (\<lambda>rq v. rq\<lparr>pr_correlation_id := Some v\<rparr>)\<rparr>"

definition plain_response_adapter :: "int response_adapter" where
  "plain_response_adapter =
     \<lparr>get_status_code = PInt,
      get_response_size = (\<lambda>rs. PInt 0),
      get_content_type = (\<lambda>rs. PStr ''text/plain'')\<rparr>"

definition counting_gen :: "nat \<Rightarrow> string \<times> nat" where
  "counting_gen n = (replicate (Suc n) (CHR ''x''), Suc n)"

definition default_config :: resolver_config where
  "default_config =
     \<lparr>correlation_id_headers = CORRELATION_ID_HEADERS,
      create_correlation_id_if_not_exists = CREATE_CORRELATION_ID_IF_NOT_EXISTS,
      create_without_request = False\<rparr>"

definition plain_request_util :: "(plain_request, int, nat) request_util_obj" where
  "plain_request_util =
     RequestUtil_obj default_config counting_gen plain_request_adapter plain_response_adapter"

definition plain_env :: "((plain_request, int, nat) request_util_obj, unit, unit) env" where
  "plain_env =
     \<lparr>RequestUtil = (\<lambda>request_cls response_cls. plain_request_util),
      app_configurator_config = (\<lambda>c x. Inr x),
      instrumentation_config = (\<lambda>c app extractor patterns x. (Inr ''request-logger'', app, x))\<rparr>"

definition imported_globals ::
  "((plain_request, int, nat) request_util_obj, unit) globals" where
  "imported_globals = module_globals False True [] ()"

definition plain_lib :: lib where
  "plain_lib =
     \<lparr>iso_time_format = (\<lambda>t. ''T''),
      epoch_nano_second = (\<lambda>t. t * 1000),
      parse_int = (\<lambda>v d. case v of PInt n \<Rightarrow> n | _ \<Rightarrow> d),
      getMessage = (\<lambda>msg args. case msg of PStr m \<Rightarrow> Inr m
                                | _ \<Rightarrow> Inl (TypeError ''not all arguments converted'')),
      format_exception = (\<lambda>v. Inr ''Traceback''),
      repr = (\<lambda>v. ''<object>''),
      JSON_SERIALIZER = (\<lambda>obj. concat (dict_keys obj))\<rparr>"

text \<open>
  The record of \<open>logger.info("hello")\<close> as the logging library builds it before Python
  3.12, and as it builds it from Python 3.12 on, where every \<open>LogRecord\<close> also has the
  attribute \<open>taskName\<close> (\<open>None\<close> outside asyncio).
\<close>

definition plain_record :: "(plain_request, int) log_record" where
  "plain_record =
     \<lparr>r_name = PStr ''app'', r_msg = PStr ''hello'', r_args = PTuple [],
      r_levelname = PStr ''INFO'', r_filename = PStr ''app.py'', r_module = PStr ''app'',
      r_exc_info = PNone, r_exc_text = PNone, r_lineno = PInt 7,
      r_threadName = PStr ''MainThread'',
      r_other = [(''levelno'', PInt 20), (''pathname'', PStr ''/srv/app.py''),
                 (''stack_info'', PNone), (''funcName'', PStr ''main''),
                 (''created'', PFloat 0), (''msecs'', PFloat 0),
                 (''relativeCreated'', PFloat 0), (''thread'', PInt 1),
                 (''processName'', PStr ''MainProcess''), (''process'', PInt 1)],
      request_response_data = None\<rparr>"

definition plain_record_312 :: "(plain_request, int) log_record" where
  "plain_record_312 =
     plain_record\<lparr>r_other :=
       [(''levelno'', PInt 20), (''pathname'', PStr ''/srv/app.py''),
        (''stack_info'', PNone), (''funcName'', PStr ''main''),
        (''created'', PFloat 0), (''msecs'', PFloat 0),
        (''relativeCreated'', PFloat 0), (''thread'', PInt 1), (''taskName'', PNone),
        (''processName'', PStr ''MainProcess''), (''process'', PInt 1)]\<rparr>"

definition component_globals ::
  "((plain_request, int, nat) request_util_obj, unit) globals" where
  "component_globals = imported_globals\<lparr>COMPONENT_ID := PStr ''c1''\<rparr>"

definition plain_carrier :: "(plain_request, int) dto" where
  "plain_carrier =
     \<lparr>dto_items = [(''request_received_at'', PStr ''T''), (''response_status'', PInt 999)],
      dto_request = \<lparr>pr_headers = [(''X-Request-ID'', ''abc-123'')], pr_correlation_id = None\<rparr>,
      dto_response = Some 200,
      dto_request_start = Some 0\<rparr>"

definition plain_request_record :: "(plain_request, int) log_record" where
  "plain_request_record = plain_record\<lparr>request_response_data := Some plain_carrier\<rparr>"

definition tagged_record :: "(plain_request, int) log_record" where
  "tagged_record = plain_record\<lparr>r_other := [(''correlation_id'', PStr ''abc'')]\<rparr>"

definition no_create_config :: resolver_config where
  "no_create_config = default_config\<lparr>create_correlation_id_if_not_exists := False\<rparr>"

definition bare_request :: plain_request where
  "bare_request = \<lparr>pr_headers = [], pr_correlation_id = None\<rparr>"

definition header_request :: plain_request where
  "header_request =
     \<lparr>pr_headers = [(''X-Correlation-ID'', ''abc-123'')], pr_correlation_id = None\<rparr>"

section \<open>What each operation leaves unchanged\<close>

lemma debug_call_frame [simp]:
  "ENABLE_JSON_LOGGING (debug_call l m s) = ENABLE_JSON_LOGGING s"
  "ENABLE_JSON_LOGGING_DEBUG (debug_call l m s) = ENABLE_JSON_LOGGING_DEBUG s"
  "framework_support_map (debug_call l m s) = framework_support_map s"
  "current_framework (debug_call l m s) = current_framework s"
  "request_util (debug_call l m s) = request_util s"
  "default_formatter (debug_call l m s) = default_formatter s"
  "base_object_common (debug_call l m s) = base_object_common s"
  "loggerDict (debug_call l m s) = loggerDict s"
  "framework_world (debug_call l m s) = framework_world s"
  by (simp_all add: debug_call_def)

lemma BaseJSONFormatter_init_frame [simp]:
  "ENABLE_JSON_LOGGING (BaseJSONFormatter_init s) = ENABLE_JSON_LOGGING s"
  "ENABLE_JSON_LOGGING_DEBUG (BaseJSONFormatter_init s) = ENABLE_JSON_LOGGING_DEBUG s"
  "framework_support_map (BaseJSONFormatter_init s) = framework_support_map s"
  "current_framework (BaseJSONFormatter_init s) = current_framework s"
  "request_util (BaseJSONFormatter_init s) = request_util s"
  "default_formatter (BaseJSONFormatter_init s) = default_formatter s"
  "logger_calls (BaseJSONFormatter_init s) = logger_calls s"
  "loggerDict (BaseJSONFormatter_init s) = loggerDict s"
  "framework_world (BaseJSONFormatter_init s) = framework_world s"
  by (simp_all add: BaseJSONFormatter_init_def Let_def)

lemma new_formatter_frame [simp]:
  "fst (new_formatter c s) = \<lparr>fmt_class = c\<rparr>"
  "ENABLE_JSON_LOGGING (snd (new_formatter c s)) = ENABLE_JSON_LOGGING s"
  "ENABLE_JSON_LOGGING_DEBUG (snd (new_formatter c s)) = ENABLE_JSON_LOGGING_DEBUG s"
  "framework_support_map (snd (new_formatter c s)) = framework_support_map s"
  "current_framework (snd (new_formatter c s)) = current_framework s"
  "request_util (snd (new_formatter c s)) = request_util s"
  "default_formatter (snd (new_formatter c s)) = default_formatter s"
  "logger_calls (snd (new_formatter c s)) = logger_calls s"
  "loggerDict (snd (new_formatter c s)) = loggerDict s"
  "framework_world (snd (new_formatter c s)) = framework_world s"
  by (simp_all add: new_formatter_def)

lemma update_handlers_frame [simp]:
  "ENABLE_JSON_LOGGING (snd (update_handlers c hs s)) = ENABLE_JSON_LOGGING s \<and>
   ENABLE_JSON_LOGGING_DEBUG (snd (update_handlers c hs s)) = ENABLE_JSON_LOGGING_DEBUG s \<and>
   framework_support_map (snd (update_handlers c hs s)) = framework_support_map s \<and>
   current_framework (snd (update_handlers c hs s)) = current_framework s \<and>
   request_util (snd (update_handlers c hs s)) = request_util s \<and>
   default_formatter (snd (update_handlers c hs s)) = default_formatter s \<and>
   logger_calls (snd (update_handlers c hs s)) = logger_calls s \<and>
   loggerDict (snd (update_handlers c hs s)) = loggerDict s \<and>
   framework_world (snd (update_handlers c hs s)) = framework_world s"
  by (induction hs arbitrary: s) (simp_all add: split_beta Let_def)

lemma update_formatter_for_loggers_frame [simp]:
  "ENABLE_JSON_LOGGING (update_formatter_for_loggers ns c s) = ENABLE_JSON_LOGGING s \<and>
   ENABLE_JSON_LOGGING_DEBUG (update_formatter_for_loggers ns c s) = ENABLE_JSON_LOGGING_DEBUG s \<and>
   framework_support_map (update_formatter_for_loggers ns c s) = framework_support_map s \<and>
   current_framework (update_formatter_for_loggers ns c s) = current_framework s \<and>
   request_util (update_formatter_for_loggers ns c s) = request_util s \<and>
   default_formatter (update_formatter_for_loggers ns c s) = default_formatter s \<and>
   logger_calls (update_formatter_for_loggers ns c s) = logger_calls s \<and>
   framework_world (update_formatter_for_loggers ns c s) = framework_world s"
  by (induction ns arbitrary: s) (simp_all add: split_beta Let_def)

lemma register_framework_support_frame [simp]:
  "ENABLE_JSON_LOGGING (snd (register_framework_support n a i q p s)) = ENABLE_JSON_LOGGING s"
  "ENABLE_JSON_LOGGING_DEBUG (snd (register_framework_support n a i q p s)) =
     ENABLE_JSON_LOGGING_DEBUG s"
  "current_framework (snd (register_framework_support n a i q p s)) = current_framework s"
  "request_util (snd (register_framework_support n a i q p s)) = request_util s"
  "default_formatter (snd (register_framework_support n a i q p s)) = default_formatter s"
  "base_object_common (snd (register_framework_support n a i q p s)) = base_object_common s"
  "loggerDict (snd (register_framework_support n a i q p s)) = loggerDict s"
  "framework_world (snd (register_framework_support n a i q p s)) = framework_world s"
  by (simp_all add: register_framework_support_def Let_def
        split: option.splits sum.splits)

section \<open>The registry after import\<close>

lemma lower_bundled:
  "lower ''flask'' = ''flask''" "lower ''sanic'' = ''sanic''" "lower ''quart'' = ''quart''"
  "lower ''connexion'' = ''connexion''" "lower ''fastapi'' = ''fastapi''"
  "lower ''Flask'' = ''flask''" "lower ''django'' = ''django''"
  by code_simp+

lemma bundled_entry_valid:
  "validate_subclass (request_adapter_class (bundled_entry p b)) ''RequestAdapter'' = Inr ()"
  "validate_subclass (response_adapter_class (bundled_entry p b)) ''ResponseAdapter'' = Inr ()"
  "validate_subclass (app_request_instrumentation_configurator (bundled_entry p b))
     ''AppRequestInstrumentationConfigurator'' = Inr ()"
  "(case app_configurator (bundled_entry p b) of None \<Rightarrow> Inr ()
    | Some c \<Rightarrow> validate_subclass c ''FrameworkConfigurator'') = Inr ()"
  by (simp_all add: bundled_entry_def validate_subclass_def issubclass_def)

lemma register_bundled_frame [simp]:
  "ENABLE_JSON_LOGGING (register_bundled n fw s) = ENABLE_JSON_LOGGING s"
  "ENABLE_JSON_LOGGING_DEBUG (register_bundled n fw s) = ENABLE_JSON_LOGGING_DEBUG s"
  "current_framework (register_bundled n fw s) = current_framework s"
  "request_util (register_bundled n fw s) = request_util s"
  "default_formatter (register_bundled n fw s) = default_formatter s"
  "base_object_common (register_bundled n fw s) = base_object_common s"
  "loggerDict (register_bundled n fw s) = loggerDict s"
  "framework_world (register_bundled n fw s) = framework_world s"
  by (simp_all add: register_bundled_def)

lemma framework_entry_eta:
  "\<lparr>app_configurator = app_configurator (fw :: framework_entry),
    app_request_instrumentation_configurator = app_request_instrumentation_configurator fw,
    request_adapter_class = request_adapter_class fw,
    response_adapter_class = response_adapter_class fw\<rparr> = fw"
  by (cases fw) simp

lemma register_bundled_map:
  "n \<noteq> [] \<Longrightarrow>
   framework_support_map (register_bundled n (bundled_entry p b) s) =
     dict_set (framework_support_map s) (lower n) (bundled_entry p b)"
  by (simp add: register_bundled_def register_framework_support_def bundled_entry_valid Let_def
        framework_entry_eta)

lemma register_bundled_calls:
  "n \<noteq> [] \<Longrightarrow> \<not> ENABLE_JSON_LOGGING_DEBUG s \<Longrightarrow>
   logger_calls (register_bundled n (bundled_entry p b) s) = logger_calls s"
  by (simp add: register_bundled_def register_framework_support_def bundled_entry_valid Let_def
        debug_call_def)

lemma module_globals_map:
  "framework_support_map (module_globals t True l x) =
     [(''flask'', bundled_entry ''Flask'' False), (''sanic'', bundled_entry ''Sanic'' True),
      (''quart'', bundled_entry ''Quart'' False),
      (''connexion'', bundled_entry ''Connexion'' False),
      (''fastapi'', bundled_entry ''FastAPI'' False)]"
  by (simp add: module_globals_def Let_def register_bundled_map lower_bundled dict_set_def
        initial_globals_def)

lemma module_globals_fields:
  "current_framework (module_globals t f l x) = None"
  "ENABLE_JSON_LOGGING (module_globals t f l x) = t"
  "\<not> ENABLE_JSON_LOGGING_DEBUG (module_globals t f l x)"
  "loggerDict (module_globals t f l x) = l"
  "default_formatter (module_globals t f l x) = None"
  "base_object_common (module_globals t f l x) = []"
  by (simp_all add: module_globals_def Let_def initial_globals_def)

lemma module_globals_calls: "logger_calls (module_globals t f l x) = []"
  by (simp add: module_globals_def Let_def register_bundled_calls initial_globals_def)

section \<open>Initialization: the guard and its outcomes\<close>

lemma init_guard:
  "current_framework s \<noteq> None \<Longrightarrow>
   init E fn cf ej s =
     (Inl (RuntimeError ''Can not call init more than once''), s\<lparr>ENABLE_JSON_LOGGING := ej\<rparr>)"
  by (simp add: init_def Let_def)

lemma init_framework_none:
  "fn = None \<or> fn = Some [] \<Longrightarrow>
   init_framework E fn cf s =
     (Inr (formatter_or cf JSONLogFormatter_class),
      s\<lparr>default_formatter := Some (formatter_or cf JSONLogFormatter_class)\<rparr>)"
  by (auto simp add: init_framework_def Let_def)

lemma init_framework_unknown:
  "n \<noteq> [] \<Longrightarrow> \<not> dict_contains (lower n) (framework_support_map s) \<Longrightarrow>
   init_framework E (Some n) cf s =
     (Inl (RuntimeError (lower n @ '' is not a supported framework'')), s)"
proof -
  assume n: "n \<noteq> []" and k: "\<not> dict_contains (lower n) (framework_support_map s)"
  from k have "dict_get (framework_support_map s) (lower n) = None"
    by (simp add: dict_contains_def dict_keys_def dict_get_def map_of_eq_None_iff)
  with n show ?thesis
    by (simp add: init_framework_def Let_def str_of_name_def)
qed

lemma init_framework_known:
  "n \<noteq> [] \<Longrightarrow> dict_get (framework_support_map s) (lower n) = Some fw \<Longrightarrow>
   \<not> ENABLE_JSON_LOGGING s \<or> app_configurator fw = None \<Longrightarrow>
   init_framework E (Some n) cf s =
     (Inr (formatter_or cf JSONLogWebFormatter_class),
      s\<lparr>current_framework := Some fw,
        request_util := Some (RequestUtil E (request_adapter_class fw) (response_adapter_class fw)),
        framework_world := framework_world s,
        default_formatter := Some (formatter_or cf JSONLogWebFormatter_class)\<rparr>)"
  by (auto simp add: init_framework_def Let_def str_of_name_def)

lemma init_without_framework:
  assumes "current_framework s = None" and "fn = None \<or> fn = Some []"
    and "\<not> invalid_formatter cf"
  shows "fst (init E fn cf ej s) = Inr ()"
    and "current_framework (snd (init E fn cf ej s)) = None"
    and "default_formatter (snd (init E fn cf ej s)) = Some (formatter_or cf JSONLogFormatter_class)"
    and "ENABLE_JSON_LOGGING (snd (init E fn cf ej s)) = ej"
  using assms
  by (simp_all add: init_def Let_def init_framework_none split_beta)

lemma init_with_framework:
  assumes "current_framework s = None" and "n \<noteq> []"
    and "dict_get (framework_support_map s) (lower n) = Some fw"
    and "\<not> ej \<or> app_configurator fw = None"
    and "\<not> invalid_formatter cf"
  shows "fst (init E (Some n) cf ej s) = Inr ()"
    and "current_framework (snd (init E (Some n) cf ej s)) = Some fw"
    and "default_formatter (snd (init E (Some n) cf ej s)) =
           Some (formatter_or cf JSONLogWebFormatter_class)"
    and "ENABLE_JSON_LOGGING (snd (init E (Some n) cf ej s)) = ej"
  using assms
  by (simp_all add: init_def Let_def init_framework_known [where fw = fw] split_beta)

lemma init_unknown_framework:
  assumes "current_framework s = None" and "n \<noteq> []"
    and "\<not> dict_contains (lower n) (framework_support_map s)"
    and "\<not> invalid_formatter cf"
  shows "fst (init E (Some n) cf ej s) =
           Inl (RuntimeError (lower n @ '' is not a supported framework''))"
  using assms by (simp add: init_def Let_def init_framework_unknown)

lemma init_unknown_framework_raises:
  assumes "n \<noteq> []" and "\<not> dict_contains (lower n) (framework_support_map s)"
  shows "isl (fst (init E (Some n) cf ej s))"
  using assms by (simp add: init_def Let_def init_framework_unknown)

text \<open>
  C1. Initialization without a framework name never assigns \<open>_current_framework\<close>, the
  only thing the guard looks at: on the globals as they are after import, a first
  \<open>init_non_web()\<close> completes and a second one completes as well, where the documentation
  of \<open>__init\<close> ("supposed to be called only one time") and the claim want an error.
\<close>

theorem C1_second_init_non_web_completes:
  "fst (init_non_web plain_env None None False (module_globals False True [] ())) = Inr () \<and>
   fst (init_non_web plain_env None None False
          (snd (init_non_web plain_env None None False (module_globals False True [] ()))))
     = Inr ()"
  by (simp add: init_non_web_def init_without_framework module_globals_fields
        invalid_formatter_def)

text \<open>
  C4. \<open>__init\<close> assigns \<open>ENABLE_JSON_LOGGING\<close> before it tests the guard. After
  \<open>init_flask(enable_json=True)\<close> has completed, a second \<open>init_flask(enable_json=False)\<close>
  raises, and the flag it leaves behind is \<open>False\<close>; the active framework and the default
  formatter are as before.
\<close>

theorem C4_failed_second_init_overwrites_flag:
  "fst (init_flask plain_env None True (module_globals False True [] ())) = Inr () \<and>
   ENABLE_JSON_LOGGING (snd (init_flask plain_env None True (module_globals False True [] ())))
     = True \<and>
   fst (init_flask plain_env None False
          (snd (init_flask plain_env None True (module_globals False True [] ()))))
     = Inl (RuntimeError ''Can not call init more than once'') \<and>
   ENABLE_JSON_LOGGING
     (snd (init_flask plain_env None False
             (snd (init_flask plain_env None True (module_globals False True [] ())))))
     = False \<and>
   current_framework
     (snd (init_flask plain_env None False
             (snd (init_flask plain_env None True (module_globals False True [] ())))))
     = current_framework (snd (init_flask plain_env None True (module_globals False True [] ())))"
proof -
  let ?s0 = "module_globals False True [] () ::
               ((plain_request, int, nat) request_util_obj, unit) globals"
  have fw: "dict_get (framework_support_map ?s0) (lower ''flask'')
              = Some (bundled_entry ''Flask'' False)"
    by (simp add: module_globals_map lower_bundled dict_get_def)
  have nc: "app_configurator (bundled_entry ''Flask'' False) = None"
    by (simp add: bundled_entry_def)
  have ok: "\<not> invalid_formatter None"
    by (simp add: invalid_formatter_def)
  have cur: "current_framework ?s0 = None"
    by (simp add: module_globals_fields)
  note first = init_with_framework [OF cur _ fw _ ok, of True plain_env, simplified nc]
  have g: "current_framework (snd (init plain_env (Some ''flask'') None True ?s0)) \<noteq> None"
    using first(2) by simp
  show ?thesis
    using first by (simp add: init_flask_def init_guard [OF g])
qed

section \<open>Registration\<close>

lemma dict_get_dict_set: "dict_get (dict_set d k v) k' = (if k' = k then Some v else dict_get d k')"
  by (simp add: dict_get_def dict_set_def update_conv')

text \<open>
  C6, as the claim states it: a valid registration under a name that is already in the
  registry emits a warning. On the globals after import (\<open>ENABLE_JSON_LOGGING_DEBUG\<close> is
  \<open>False\<close>) registering \<open>Flask\<close> again succeeds and makes no call on the library logger.
\<close>

theorem C6_reregistration_without_warning:
  "dict_contains (lower ''Flask'') (framework_support_map imported_globals) \<and>
   fst (register_framework_support (Some ''Flask'') None
          (PyClass ''A'' [''AppRequestInstrumentationConfigurator''])
          (PyClass ''B'' [''RequestAdapter'']) (PyClass ''C'' [''ResponseAdapter''])
          imported_globals) = Inr () \<and>
   logger_calls (snd (register_framework_support (Some ''Flask'') None
          (PyClass ''A'' [''AppRequestInstrumentationConfigurator''])
          (PyClass ''B'' [''RequestAdapter'']) (PyClass ''C'' [''ResponseAdapter''])
          imported_globals)) = []"
  by (simp add: register_framework_support_def validate_subclass_def issubclass_def Let_def
        imported_globals_def module_globals_map module_globals_calls module_globals_fields
        lower_bundled dict_contains_def dict_keys_def debug_call_def)

text \<open>
  C6, amended. \<open>register_framework_support\<close> raises, and changes nothing, when the name is
  \<open>None\<close> or empty or when a supplied class fails its validation. Every other
  registration returns normally and stores the entry under the lower-cased name,
  overwriting an entry already there; the warning is emitted exactly when the name was
  already registered and \<open>ENABLE_JSON_LOGGING_DEBUG\<close> is on.
\<close>

theorem C6_register_framework_support:
  "(name = None \<or> name = Some [] \<longrightarrow>
      register_framework_support name a i q p s =
        (Inl (RuntimeError ''framework name can not be null or empty''), s)) \<and>
   (name = Some n \<and> n \<noteq> [] \<and>
    \<not> (issubclass q ''RequestAdapter'' \<and> issubclass p ''ResponseAdapter'' \<and>
       issubclass i ''AppRequestInstrumentationConfigurator'' \<and>
       (case a of None \<Rightarrow> True | Some c \<Rightarrow> issubclass c ''FrameworkConfigurator'')) \<longrightarrow>
      isl (fst (register_framework_support name a i q p s)) \<and>
      snd (register_framework_support name a i q p s) = s) \<and>
   (name = Some n \<and> n \<noteq> [] \<and>
    issubclass q ''RequestAdapter'' \<and> issubclass p ''ResponseAdapter'' \<and>
    issubclass i ''AppRequestInstrumentationConfigurator'' \<and>
    (case a of None \<Rightarrow> True | Some c \<Rightarrow> issubclass c ''FrameworkConfigurator'') \<longrightarrow>
      fst (register_framework_support name a i q p s) = Inr () \<and>
      dict_get (framework_support_map (snd (register_framework_support name a i q p s)))
        (lower n) =
        Some \<lparr>app_configurator = a, app_request_instrumentation_configurator = i,
              request_adapter_class = q, response_adapter_class = p\<rparr> \<and>
      logger_calls (snd (register_framework_support name a i q p s)) =
        logger_calls s @
          (if dict_contains (lower n) (framework_support_map s) \<and> ENABLE_JSON_LOGGING_DEBUG s
           then [(WARNING, ''Re-register framework '' @ lower n)] else []))"
  by (auto simp add: register_framework_support_def validate_subclass_def Let_def
        dict_get_dict_set debug_call_def split: option.splits)

theorem C6_register_framework_support_witness:
  "register_framework_support None None
     (PyClass ''A'' [''AppRequestInstrumentationConfigurator''])
     (PyClass ''B'' [''RequestAdapter'']) (PyClass ''C'' [''ResponseAdapter''])
     imported_globals =
     (Inl (RuntimeError ''framework name can not be null or empty''),
      imported_globals) \<and>
   isl (fst (register_framework_support (Some ''Flask'') None
     (PyClass ''A'' [''AppRequestInstrumentationConfigurator''])
     (PyClass ''B'' []) (PyClass ''C'' [''ResponseAdapter''])
     imported_globals)) \<and>
   fst (register_framework_support (Some ''Flask'') None
     (PyClass ''A'' [''AppRequestInstrumentationConfigurator''])
     (PyClass ''B'' [''RequestAdapter'']) (PyClass ''C'' [''ResponseAdapter''])
     (imported_globals\<lparr>ENABLE_JSON_LOGGING_DEBUG := True\<rparr>)) = Inr () \<and>
   logger_calls (snd (register_framework_support (Some ''Flask'') None
     (PyClass ''A'' [''AppRequestInstrumentationConfigurator''])
     (PyClass ''B'' [''RequestAdapter'']) (PyClass ''C'' [''ResponseAdapter''])
     (imported_globals\<lparr>ENABLE_JSON_LOGGING_DEBUG := True\<rparr>))) =
     [(WARNING, ''Re-register framework flask'')]"
  using
    C6_register_framework_support [where name = None and a = None
      and i = "PyClass ''A'' [''AppRequestInstrumentationConfigurator'']"
      and q = "PyClass ''B'' [''RequestAdapter'']" and p = "PyClass ''C'' [''ResponseAdapter'']"
      and s = "imported_globals" and n = "''Flask''"]
    C6_register_framework_support [where name = "Some ''Flask''" and a = None
      and i = "PyClass ''A'' [''AppRequestInstrumentationConfigurator'']"
      and q = "PyClass ''B'' []" and p = "PyClass ''C'' [''ResponseAdapter'']"
      and s = "imported_globals" and n = "''Flask''"]
    C6_register_framework_support [where name = "Some ''Flask''" and a = None
      and i = "PyClass ''A'' [''AppRequestInstrumentationConfigurator'']"
      and q = "PyClass ''B'' [''RequestAdapter'']" and p = "PyClass ''C'' [''ResponseAdapter'']"
      and s = "imported_globals\<lparr>ENABLE_JSON_LOGGING_DEBUG := True\<rparr>"
      and n = "''Flask''"]
  by (simp add: issubclass_def imported_globals_def module_globals_map module_globals_calls
        lower_bundled dict_contains_def dict_keys_def)

section \<open>Request instrumentation before initialization, unknown frameworks\<close>

text \<open>
  C7. While \<open>_current_framework\<close> is \<open>None\<close> (as it is until an initialization with a
  framework has run), \<open>init_request_instrument\<close> raises the "please init" error and hands
  back the application and the globals untouched. An initialization with a non-empty
  framework name that is not in the registry never completes; when the guard and the
  formatter check before it pass, the error is the "is not a supported framework" one.
\<close>

theorem C7_uninitialized_and_unknown_framework:
  "(current_framework s = None \<longrightarrow>
      init_request_instrument E app cf patterns extractor s =
        (Inl (RuntimeError ''please init the logging first, call init(framework_name) first''),
         app, s)) \<and>
   (n \<noteq> [] \<and> \<not> dict_contains (lower n) (framework_support_map s) \<longrightarrow>
      isl (fst (init E (Some n) cf' ej s)) \<and>
      (current_framework s = None \<and> \<not> invalid_formatter cf' \<longrightarrow>
         fst (init E (Some n) cf' ej s) =
           Inl (RuntimeError (lower n @ '' is not a supported framework''))))"
  by (simp add: init_request_instrument_def init_unknown_framework
        init_unknown_framework_raises)

theorem C7_uninitialized_and_unknown_framework_witness:
  "current_framework imported_globals = None \<and>
   \<not> dict_contains (lower ''django'') (framework_support_map imported_globals) \<and>
   \<not> invalid_formatter None \<and>
   init_request_instrument plain_env () None [] DefaultRequestResponseDTO_class
       imported_globals =
     (Inl (RuntimeError ''please init the logging first, call init(framework_name) first''),
      (), imported_globals) \<and>
   fst (init plain_env (Some ''django'') None False imported_globals) =
     Inl (RuntimeError ''django is not a supported framework'')"
  using C7_uninitialized_and_unknown_framework [where s = "imported_globals"
      and E = plain_env and app = "()" and cf = None and patterns = "[]"
      and extractor = DefaultRequestResponseDTO_class and n = "''django''" and cf' = None
      and ej = False]
  by (simp add: imported_globals_def module_globals_fields module_globals_map lower_bundled
        dict_contains_def dict_keys_def invalid_formatter_def)

section \<open>Dictionaries\<close>

lemma map_of_fold_update:
  "map_of (fold (\<lambda>(k, v) acc. AList.update k v acc) e d) = map_of d ++ map_of (rev e)"
proof (induction e arbitrary: d)
  case Nil
  show ?case by simp
next
  case (Cons kv e)
  obtain k v where kv: "kv = (k, v)" by (cases kv)
  have "map_of (fold (\<lambda>(k, v) acc. AList.update k v acc) (kv # e) d) =
          map_of (AList.update k v d) ++ map_of (rev e)"
    by (simp add: kv Cons.IH)
  also have "\<dots> = (map_of d)(k \<mapsto> v) ++ map_of (rev e)"
    by (simp only: update_conv')
  also have "\<dots> = map_of d ++ map_of (rev (kv # e))"
    by (rule ext) (simp add: kv map_add_def split: option.splits)
  finally show ?case .
qed

lemma map_of_rev_distinct: "distinct (map fst xs) \<Longrightarrow> map_of (rev xs) = map_of xs"
proof (induction xs)
  case Nil
  show ?case by simp
next
  case (Cons kv xs)
  obtain k v where kv: "kv = (k, v)" by (cases kv)
  from Cons.prems have notin: "map_of xs k = None" and d: "distinct (map fst xs)"
    by (simp_all add: kv map_of_eq_None_iff)
  show ?case
    by (rule ext) (simp add: kv Cons.IH [OF d] map_add_def notin split: option.splits)
qed

lemma dict_get_dict_update:
  "dict_get (dict_update d e) k =
     (case map_of (rev e) k of Some v \<Rightarrow> Some v | None \<Rightarrow> dict_get d k)"
  unfolding dict_get_def
  by (simp add: dict_update_def dict_set_def [abs_def] map_of_fold_update map_add_def)

lemma dict_get_dict_update_distinct:
  "distinct (dict_keys e) \<Longrightarrow>
   dict_get (dict_update d e) k =
     (case dict_get e k of Some v \<Rightarrow> Some v | None \<Rightarrow> dict_get d k)"
  using dict_get_dict_update [of d e k] map_of_rev_distinct [of e]
  unfolding dict_get_def dict_keys_def by simp

lemma keys_dom: "set (dict_keys d) = dom (map_of d)"
  by (simp add: dict_keys_def dom_map_of_conv_image_fst)

lemma dict_keys_dict_set: "set (dict_keys (dict_set d k v)) = insert k (set (dict_keys d))"
  by (simp add: keys_dom dict_set_def update_conv')

lemma dict_keys_dict_update:
  "set (dict_keys (dict_update d e)) = set (dict_keys d) \<union> set (dict_keys e)"
proof -
  have "dom (map_of (rev e)) = dom (map_of e)"
    by (simp add: dom_map_of_conv_image_fst)
  then show ?thesis
    by (auto simp add: keys_dom dict_update_def dict_set_def [abs_def] map_of_fold_update)
qed

lemma dict_contains_iff: "dict_contains k d \<longleftrightarrow> dict_get d k \<noteq> None"
  by (simp add: dict_contains_def keys_dom dict_get_def dom_def)

section \<open>The log layer\<close>

lemma fold_extra_field_skipped:
  "\<forall>k \<in> set (dict_keys items). k \<in> set RECORD_ATTR_SKIP_LIST \<Longrightarrow>
   fold (extra_field L) items acc = acc"
  by (induction items arbitrary: acc) (auto simp add: extra_field_def dict_keys_def)

lemma get_extra_fields_standard:
  assumes "\<forall>k \<in> set (dict_keys (r_other r)). k \<in> set RECORD_ATTR_SKIP_LIST \<and> k \<noteq> ''props''"
    and "request_response_data r = None"
  shows "get_extra_fields L r = (if truthy (r_args r) then [(''msg'', r_msg r)] else [])"
proof -
  define N where
    "N = [''name'', ''msg'', ''args'', ''levelname'', ''filename'', ''module'', ''exc_info'',
          ''exc_text'', ''lineno'', ''threadName'']"
  have names: "set N \<subseteq> set RECORD_ATTR_SKIP_LIST"
    by (simp add: N_def RECORD_ATTR_SKIP_LIST_def)
  have "dict_keys (record_dict_items r) = N @ dict_keys (r_other r)"
    using assms(2) by (simp add: record_dict_items_def dict_keys_def N_def)
  then have "set (dict_keys (record_dict_items r)) = set N \<union> set (dict_keys (r_other r))"
    by simp
  with names assms(1)
  have std: "\<forall>k \<in> set (dict_keys (record_dict_items r)). k \<in> set RECORD_ATTR_SKIP_LIST"
    by blast
  have "\<not> dict_contains ''props'' (r_other r)"
    using assms(1) by (auto simp add: dict_contains_def)
  then have props: "dict_get (r_other r) ''props'' = None"
    by (simp add: dict_contains_iff)
  show ?thesis
    by (simp add: get_extra_fields_def Let_def fold_extra_field_skipped [OF std] props
          dict_set_def)
qed

text \<open>
  For a record without exception info (\<open>exc_info\<close> and \<open>exc_text\<close> both falsy), whose
  further attributes all have names in \<open>RECORD_ATTR_SKIP_LIST\<close>, none of them \<open>props\<close>,
  and without a carrier, whose message renders, the plain log formatter returns an object
  whose keys are exactly \<open>written_at\<close>, \<open>written_ts\<close>, the keys of \<open>base_object_common\<close>,
  and the seven fields of the log layer. Whether a record of the logging library is such a
  record depends on the skip list naming every attribute the library sets.
\<close>

lemma plain_log_object_keys:
  assumes "\<not> truthy (r_exc_info r)" and "\<not> truthy (r_exc_text r)"
    and "\<forall>k \<in> set (dict_keys (r_other r)). k \<in> set RECORD_ATTR_SKIP_LIST \<and> k \<noteq> ''props''"
    and "request_response_data r = None"
    and "getMessage L (r_msg r) (r_args r) = Inr m"
  shows "\<exists>obj. JSONLogFormatter_format_log_object L boc now r = Inr obj \<and>
           set (dict_keys obj) =
             {''written_at'', ''written_ts''} \<union> set (dict_keys boc) \<union>
             {''msg'', ''type'', ''logger'', ''thread'', ''level'', ''module'', ''line_no''}"
proof -
  let ?base = "dict_update
                 [(''written_at'', PStr (iso_time_format L now)),
                  (''written_ts'', PInt (epoch_nano_second L now))] boc"
  let ?extra = "if truthy (r_args r) then [(''msg'', r_msg r)] else []"
  let ?log = "[(''msg'', PStr (sanitize m)), (''type'', PStr ''log''), (''logger'', r_name r),
               (''thread'', r_threadName r), (''level'', r_levelname r),
               (''module'', r_module r), (''line_no'', r_lineno r)]"
  have base: "BaseJSONFormatter_format_log_object L boc now r = dict_update ?base ?extra"
    by (simp add: BaseJSONFormatter_format_log_object_def Let_def
          get_extra_fields_standard [OF assms(3,4)])
  have res: "JSONLogFormatter_format_log_object L boc now r =
               Inr (dict_update (dict_update ?base ?extra) ?log)"
    using assms(1,2,5)
    by (simp add: JSONLogFormatter_format_log_object_def sanitize_log_msg_def Let_def base)
  define A where "A = {''written_at'', ''written_ts''} \<union> set (dict_keys boc)"
  define F where
    "F = {''msg'', ''type'', ''logger'', ''thread'', ''level'', ''module'', ''line_no''}"
  have k1: "set (dict_keys ?extra) \<subseteq> F"
    by (cases "truthy (r_args r)") (simp_all add: dict_keys_def F_def)
  have k2: "set (dict_keys ?log) = F"
    by (simp add: dict_keys_def F_def)
  have k3: "set (dict_keys ?base) = A"
    unfolding dict_keys_dict_update A_def by (simp add: dict_keys_def)
  have "set (dict_keys (dict_update (dict_update ?base ?extra) ?log)) = A \<union> F"
    unfolding dict_keys_dict_update [of "dict_update ?base ?extra"]
      dict_keys_dict_update [of ?base ?extra] k2 k3
    using k1 by blast
  then have "set (dict_keys (dict_update (dict_update ?base ?extra) ?log)) =
          {''written_at'', ''written_ts''} \<union> set (dict_keys boc) \<union>
          {''msg'', ''type'', ''logger'', ''thread'', ''level'', ''module'', ''line_no''}"
    unfolding A_def F_def .
  with res show ?thesis by (intro exI conjI)
qed

section \<open>The web log layer and the request layer\<close>

text \<open>
  C8. Whenever the log layer returns an object: if it has the key \<open>correlation_id\<close>, the
  web log formatter returns that object unchanged and resolves nothing; otherwise, with a
  \<open>RequestUtil\<close> at hand, it returns the object with \<open>correlation_id\<close> set to the id
  resolved without a request and with \<open>within_formatter=True\<close>. Every object the web log
  formatter returns has the key \<open>correlation_id\<close>.
\<close>

theorem C8_web_log_correlation_id:
  assumes "JSONLogFormatter_format_log_object L boc now r = Inr obj"
  shows "(dict_contains ''correlation_id'' obj \<longrightarrow>
            JSONLogWebFormatter_format_log_object L boc now r ru g = Inr (obj, g)) \<and>
         (\<not> dict_contains ''correlation_id'' obj \<and> ru = Some u \<longrightarrow>
            JSONLogWebFormatter_format_log_object L boc now r ru g =
              Inr (dict_set obj ''correlation_id''
                     (PStr (fst (ru_get_correlation_id u None True g))),
                   snd (snd (ru_get_correlation_id u None True g)))) \<and>
         (\<forall>obj' g'. JSONLogWebFormatter_format_log_object L boc now r ru g = Inr (obj', g')
            \<longrightarrow> dict_contains ''correlation_id'' obj')"
proof (intro conjI impI allI)
  assume "dict_contains ''correlation_id'' obj"
  then show "JSONLogWebFormatter_format_log_object L boc now r ru g = Inr (obj, g)"
    by (simp add: JSONLogWebFormatter_format_log_object_def assms)
next
  assume "\<not> dict_contains ''correlation_id'' obj \<and> ru = Some u"
  then show "JSONLogWebFormatter_format_log_object L boc now r ru g =
      Inr (dict_set obj ''correlation_id'' (PStr (fst (ru_get_correlation_id u None True g))),
           snd (snd (ru_get_correlation_id u None True g)))"
    by (simp add: JSONLogWebFormatter_format_log_object_def assms split_beta dict_update_def)
next
  fix obj' g'
  assume res: "JSONLogWebFormatter_format_log_object L boc now r ru g = Inr (obj', g')"
  show "dict_contains ''correlation_id'' obj'"
  proof (cases "dict_contains ''correlation_id'' obj")
    case True
    with res show ?thesis
      by (simp add: JSONLogWebFormatter_format_log_object_def assms)
  next
    case False
    with res have "\<exists>v. obj' = dict_set obj ''correlation_id'' v"
      by (auto simp add: JSONLogWebFormatter_format_log_object_def assms split_beta
            dict_update_def split: option.splits)
    then show ?thesis
      by (auto simp add: dict_contains_def dict_keys_dict_set)
  qed
qed

theorem C8_web_log_correlation_id_witness:
  "JSONLogFormatter_format_log_object plain_lib [] 0 plain_record =
     Inr [(''written_at'', PStr ''T''), (''written_ts'', PInt 0), (''msg'', PStr ''hello''),
          (''type'', PStr ''log''), (''logger'', PStr ''app''),
          (''thread'', PStr ''MainThread''), (''level'', PStr ''INFO''),
          (''module'', PStr ''app''), (''line_no'', PInt 7)] \<and>
   JSONLogWebFormatter_format_log_object plain_lib [] 0 plain_record
       (Some plain_request_util) (0::nat) =
     Inr ([(''written_at'', PStr ''T''), (''written_ts'', PInt 0), (''msg'', PStr ''hello''),
           (''type'', PStr ''log''), (''logger'', PStr ''app''),
           (''thread'', PStr ''MainThread''), (''level'', PStr ''INFO''),
           (''module'', PStr ''app''), (''line_no'', PInt 7),
           (''correlation_id'', PStr ''-'')], 0) \<and>
   JSONLogFormatter_format_log_object plain_lib [] 0 tagged_record =
     Inr [(''written_at'', PStr ''T''), (''written_ts'', PInt 0),
          (''correlation_id'', PStr ''abc''), (''msg'', PStr ''hello''),
          (''type'', PStr ''log''), (''logger'', PStr ''app''),
          (''thread'', PStr ''MainThread''), (''level'', PStr ''INFO''),
          (''module'', PStr ''app''), (''line_no'', PInt 7)] \<and>
   JSONLogWebFormatter_format_log_object plain_lib [] 0 tagged_record
       (Some plain_request_util) (0::nat) =
     Inr ([(''written_at'', PStr ''T''), (''written_ts'', PInt 0),
           (''correlation_id'', PStr ''abc''), (''msg'', PStr ''hello''),
           (''type'', PStr ''log''), (''logger'', PStr ''app''),
           (''thread'', PStr ''MainThread''), (''level'', PStr ''INFO''),
           (''module'', PStr ''app''), (''line_no'', PInt 7)], 0)"
proof -
  let ?obj = "[(''written_at'', PStr ''T''), (''written_ts'', PInt 0), (''msg'', PStr ''hello''),
          (''type'', PStr ''log''), (''logger'', PStr ''app''),
          (''thread'', PStr ''MainThread''), (''level'', PStr ''INFO''),
          (''module'', PStr ''app''), (''line_no'', PInt 7)]"
  let ?tagged = "[(''written_at'', PStr ''T''), (''written_ts'', PInt 0),
          (''correlation_id'', PStr ''abc''), (''msg'', PStr ''hello''),
          (''type'', PStr ''log''), (''logger'', PStr ''app''),
          (''thread'', PStr ''MainThread''), (''level'', PStr ''INFO''),
          (''module'', PStr ''app''), (''line_no'', PInt 7)]"
  have h: "JSONLogFormatter_format_log_object plain_lib [] 0 plain_record = Inr ?obj"
    by (simp add: JSONLogFormatter_format_log_object_def
          BaseJSONFormatter_format_log_object_def get_extra_fields_def sanitize_log_msg_def
          sanitize_def record_dict_items_def extra_field_def RECORD_ATTR_SKIP_LIST_def
          plain_record_def plain_lib_def dict_update_def dict_set_def dict_get_def Let_def)
  have h': "JSONLogFormatter_format_log_object plain_lib [] 0 tagged_record = Inr ?tagged"
    by (simp add: JSONLogFormatter_format_log_object_def
          BaseJSONFormatter_format_log_object_def get_extra_fields_def sanitize_log_msg_def
          sanitize_def record_dict_items_def extra_field_def RECORD_ATTR_SKIP_LIST_def
          tagged_record_def plain_record_def plain_lib_def dict_update_def dict_set_def
          dict_get_def Let_def)
  have n: "\<not> dict_contains ''correlation_id'' ?obj"
    by (simp add: dict_contains_def dict_keys_def)
  have y: "dict_contains ''correlation_id'' ?tagged"
    by (simp add: dict_contains_def dict_keys_def)
  have v: "ru_get_correlation_id plain_request_util None True (0::nat) = (''-'', None, 0)"
    by (simp add: plain_request_util_def RequestUtil_obj_def resolve_def default_config_def)
  from C8_web_log_correlation_id [OF h, where ru = "Some plain_request_util"
      and u = plain_request_util and g = "0::nat"] n
  have "JSONLogWebFormatter_format_log_object plain_lib [] 0 plain_record
          (Some plain_request_util) (0::nat) =
        Inr (dict_set ?obj ''correlation_id''
                     (PStr (fst (ru_get_correlation_id plain_request_util None True (0::nat)))),
                   snd (snd (ru_get_correlation_id plain_request_util None True (0::nat))))"
    by blast
  then have a: "JSONLogWebFormatter_format_log_object plain_lib [] 0 plain_record
          (Some plain_request_util) (0::nat) = Inr (?obj @ [(''correlation_id'', PStr ''-'')], 0)"
    by (simp add: v dict_set_def)
  from C8_web_log_correlation_id [OF h', where ru = "Some plain_request_util"
      and u = plain_request_util and g = "0::nat"] y
  have b: "JSONLogWebFormatter_format_log_object plain_lib [] 0 tagged_record
          (Some plain_request_util) (0::nat) = Inr (?tagged, 0)"
    by blast
  show ?thesis
    using h h' a b by simp
qed

lemma request_fields_keys:
  "dict_keys (request_fields L qa pa cid rq rs len) =
     [''type'', ''correlation_id'', ''remote_user'', ''request'', ''referer'',
      ''x_forwarded_for'', ''protocol'', ''method'', ''remote_ip'', ''request_size_b'',
      ''remote_host'', ''remote_port'', ''response_status'', ''response_size_b'',
      ''response_content_type'']"
  by (simp add: request_fields_def dict_keys_def)

lemma request_fields_distinct: "distinct (dict_keys (request_fields L qa pa cid rq rs len))"
  unfolding request_fields_keys by simp

text \<open>
  C2. With a \<open>RequestUtil\<close> at hand and a completed carrier on the record, the request
  formatter returns the base object, updated with a dict whose keys are the fifteen
  explicit request fields, updated in turn with the items of the carrier. Hence every key
  of the carrier has the carrier's value in the final object, whether or not the explicit
  block defines it, and an explicit field keeps its value only when the carrier has no
  such key.
\<close>

theorem C2_request_object_merge_order:
  assumes "ru = Some u" and "g_ru = Some gu"
    and "request_response_data r = Some d" and "dto_response d = Some response"
    and "distinct (dict_keys (dto_items d))"
  shows "\<exists>explicit rq g'.
     JSONRequestLogFormatter_format_log_object L boc g_ru now r ru g =
       Inr (dict_update
              (dict_update (BaseJSONFormatter_format_log_object L boc now r) explicit)
              (dto_items d), rq, g') \<and>
     dict_keys explicit =
       [''type'', ''correlation_id'', ''remote_user'', ''request'', ''referer'',
        ''x_forwarded_for'', ''protocol'', ''method'', ''remote_ip'', ''request_size_b'',
        ''remote_host'', ''remote_port'', ''response_status'', ''response_size_b'',
        ''response_content_type''] \<and>
     (\<forall>k v. dict_get (dto_items d) k = Some v \<longrightarrow>
        dict_get (dict_update
                    (dict_update (BaseJSONFormatter_format_log_object L boc now r) explicit)
                    (dto_items d)) k = Some v) \<and>
     (\<forall>k. \<not> dict_contains k (dto_items d) \<and> dict_contains k explicit \<longrightarrow>
        dict_get (dict_update
                    (dict_update (BaseJSONFormatter_format_log_object L boc now r) explicit)
                    (dto_items d)) k = dict_get explicit k)"
proof -
  let ?res = "ru_get_correlation_id u (Some (dto_request d)) False g"
  let ?rq = "case fst (snd ?res) of Some x \<Rightarrow> x | None \<Rightarrow> dto_request d"
  let ?explicit = "request_fields L (request_adapter u) (response_adapter gu) (fst ?res) ?rq
                     response (get_content_length (request_adapter u) (dto_request d))"
  let ?base = "BaseJSONFormatter_format_log_object L boc now r"
  have run: "JSONRequestLogFormatter_format_log_object L boc g_ru now r ru g =
               Inr (dict_update (dict_update ?base ?explicit) (dto_items d), ?rq,
                    snd (snd ?res))"
    by (simp add: JSONRequestLogFormatter_format_log_object_def assms(1-4) Let_def split_beta)
  have carrier: "\<forall>k v. dict_get (dto_items d) k = Some v \<longrightarrow>
        dict_get (dict_update (dict_update ?base ?explicit) (dto_items d)) k = Some v"
    by (simp add: dict_get_dict_update_distinct [OF assms(5)])
  have fixed: "\<forall>k. \<not> dict_contains k (dto_items d) \<and> dict_contains k ?explicit \<longrightarrow>
        dict_get (dict_update (dict_update ?base ?explicit) (dto_items d)) k =
          dict_get ?explicit k"
    by (auto simp add: dict_get_dict_update_distinct [OF assms(5)]
          dict_get_dict_update_distinct [OF request_fields_distinct] dict_contains_iff)
  show ?thesis
    using run carrier fixed request_fields_keys [of L "request_adapter u" "response_adapter gu"
        "fst ?res" ?rq response "get_content_length (request_adapter u) (dto_request d)"]
    by blast
qed

theorem C2_request_object_merge_order_witness:
  "request_response_data plain_request_record = Some plain_carrier \<and>
   dto_response plain_carrier = Some 200 \<and>
   distinct (dict_keys (dto_items plain_carrier)) \<and>
   (\<exists>obj rq g'.
      JSONRequestLogFormatter_format_log_object plain_lib [] (Some plain_request_util) 0
          plain_request_record (Some plain_request_util) (0::nat) = Inr (obj, rq, g') \<and>
      dict_get obj ''response_status'' = Some (PInt 999))"
proof -
  have h3: "request_response_data plain_request_record = Some plain_carrier"
    by (simp add: plain_request_record_def)
  have h4: "dto_response plain_carrier = Some 200"
    and h5: "distinct (dict_keys (dto_items plain_carrier))"
    and c: "dict_get (dto_items plain_carrier) ''response_status'' = Some (PInt 999)"
    by (simp_all add: plain_carrier_def dict_keys_def dict_get_def)
  from C2_request_object_merge_order [OF refl refl h3 h4 h5,
      where L = plain_lib and boc = "[]" and now = 0 and g = "0::nat"
        and u = plain_request_util and gu = plain_request_util] c
  have "\<exists>obj rq g'.
      JSONRequestLogFormatter_format_log_object plain_lib [] (Some plain_request_util) 0
          plain_request_record (Some plain_request_util) (0::nat) = Inr (obj, rq, g') \<and>
      dict_get obj ''response_status'' = Some (PInt 999)"
    by blast
  with h3 h4 h5 show ?thesis by (intro conjI)
qed

section \<open>The shared component identity dict\<close>

lemma BaseJSONFormatter_init_keys:
  "set (dict_keys (base_object_common s)) \<subseteq>
     set (dict_keys (base_object_common (BaseJSONFormatter_init s)))"
  by (auto simp add: BaseJSONFormatter_init_def Let_def dict_keys_dict_set)

lemma BaseJSONFormatter_init_component_id:
  "truthy (COMPONENT_ID s) \<Longrightarrow> COMPONENT_ID s \<noteq> EMPTY_VALUE \<Longrightarrow>
   dict_get (base_object_common (BaseJSONFormatter_init s)) ''component_id'' =
     Some (COMPONENT_ID s)"
  by (simp add: BaseJSONFormatter_init_def Let_def dict_get_dict_set)

lemma BaseJSONFormatter_init_component_name:
  "truthy (COMPONENT_NAME s) \<Longrightarrow> COMPONENT_NAME s \<noteq> EMPTY_VALUE \<Longrightarrow>
   dict_get (base_object_common (BaseJSONFormatter_init s)) ''component_name'' =
     Some (COMPONENT_NAME s)"
  by (simp add: BaseJSONFormatter_init_def Let_def dict_get_dict_set)

lemma BaseJSONFormatter_init_component_instance_idx:
  "truthy (COMPONENT_INSTANCE_INDEX s) \<Longrightarrow> COMPONENT_INSTANCE_INDEX s \<noteq> EMPTY_VALUE \<Longrightarrow>
   dict_get (base_object_common (BaseJSONFormatter_init s)) ''component_instance_idx'' =
     Some (COMPONENT_INSTANCE_INDEX s)"
  by (simp add: BaseJSONFormatter_init_def Let_def dict_get_dict_set)

lemma update_handlers_keys:
  "set (dict_keys (base_object_common s)) \<subseteq>
     set (dict_keys (base_object_common (snd (update_handlers c hs s))))"
proof (induction hs arbitrary: s)
  case Nil
  show ?case by simp
next
  case (Cons h hs)
  have "set (dict_keys (base_object_common s)) \<subseteq>
          set (dict_keys (base_object_common (snd (new_formatter c s))))"
    using BaseJSONFormatter_init_keys [of s] by (simp add: new_formatter_def)
  also have "\<dots> \<subseteq> set (dict_keys (base_object_common
                 (snd (update_handlers c hs (snd (new_formatter c s))))))"
    by (rule Cons.IH)
  finally show ?case by (simp add: split_beta)
qed

lemma update_formatter_for_loggers_keys:
  "set (dict_keys (base_object_common s)) \<subseteq>
     set (dict_keys (base_object_common (update_formatter_for_loggers ns c s)))"
proof (induction ns arbitrary: s)
  case Nil
  show ?case by simp
next
  case (Cons n ns)
  let ?s1 = "snd (update_handlers c (lg_handlers (getLogger n s)) s)"
  let ?s2 = "?s1\<lparr>loggerDict := dict_set (loggerDict ?s1) n
               ((getLogger n s)\<lparr>lg_handlers :=
                  fst (update_handlers c (lg_handlers (getLogger n s)) s)\<rparr>)\<rparr>"
  have "set (dict_keys (base_object_common s)) \<subseteq> set (dict_keys (base_object_common ?s2))"
    using update_handlers_keys [of s c "lg_handlers (getLogger n s)"] by simp
  also have "\<dots> \<subseteq> set (dict_keys (base_object_common (update_formatter_for_loggers ns c ?s2)))"
    by (rule Cons.IH)
  finally show ?case by (simp add: split_beta Let_def)
qed

lemma register_framework_support_components:
  "COMPONENT_ID (snd (register_framework_support n a i q p s)) = COMPONENT_ID s"
  "COMPONENT_NAME (snd (register_framework_support n a i q p s)) = COMPONENT_NAME s"
  "COMPONENT_INSTANCE_INDEX (snd (register_framework_support n a i q p s)) =
     COMPONENT_INSTANCE_INDEX s"
  by (simp_all add: register_framework_support_def Let_def debug_call_def
        split: option.splits sum.splits)

lemma module_globals_components:
  "COMPONENT_ID (module_globals t f l x) = EMPTY_VALUE"
  "COMPONENT_NAME (module_globals t f l x) = EMPTY_VALUE"
  "COMPONENT_INSTANCE_INDEX (module_globals t f l x) = PInt 0"
  by (simp_all add: module_globals_def Let_def register_bundled_def
        register_framework_support_components initial_globals_def)

text \<open>
  C10. \<open>base_object_common\<close> is one dict for the whole class hierarchy: whichever
  formatter instance reads \<open>self.base_object_common\<close>, in whichever state, it reads the
  class attribute. Constructing an instance of \<open>BaseJSONFormatter\<close> or of a subclass
  keeps every key already in that dict and stores each configured component identity
  field in it, so every instance, those constructed earlier included, formats with the
  new entries from then on.
\<close>

theorem C10_shared_base_object_common:
  assumes "issubclass c ''BaseJSONFormatter''"
  shows "base_object_common_of earlier (snd (new_formatter c s)) =
           base_object_common_of (fst (new_formatter c s)) (snd (new_formatter c s)) \<and>
         set (dict_keys (base_object_common_of earlier s)) \<subseteq>
           set (dict_keys (base_object_common_of earlier (snd (new_formatter c s)))) \<and>
         (truthy (COMPONENT_ID s) \<and> COMPONENT_ID s \<noteq> EMPTY_VALUE \<longrightarrow>
            dict_get (base_object_common_of earlier (snd (new_formatter c s))) ''component_id''
              = Some (COMPONENT_ID s)) \<and>
         (truthy (COMPONENT_NAME s) \<and> COMPONENT_NAME s \<noteq> EMPTY_VALUE \<longrightarrow>
            dict_get (base_object_common_of earlier (snd (new_formatter c s))) ''component_name''
              = Some (COMPONENT_NAME s)) \<and>
         (truthy (COMPONENT_INSTANCE_INDEX s) \<and> COMPONENT_INSTANCE_INDEX s \<noteq> EMPTY_VALUE \<longrightarrow>
            dict_get (base_object_common_of earlier (snd (new_formatter c s)))
              ''component_instance_idx'' = Some (COMPONENT_INSTANCE_INDEX s))"
  using assms BaseJSONFormatter_init_keys [of s]
  by (simp add: base_object_common_of_def new_formatter_def BaseJSONFormatter_init_component_id
        BaseJSONFormatter_init_component_name BaseJSONFormatter_init_component_instance_idx)

theorem C10_shared_base_object_common_witness:
  "issubclass JSONLogWebFormatter_class ''BaseJSONFormatter'' \<and>
   dict_get (base_object_common_of \<lparr>fmt_class = JSONRequestLogFormatter_class\<rparr>
     (snd (new_formatter JSONLogWebFormatter_class
             (imported_globals\<lparr>COMPONENT_ID := PStr ''c1'',
                                COMPONENT_INSTANCE_INDEX := PInt 3\<rparr>)))) ''component_id'' =
     Some (PStr ''c1'') \<and>
   dict_get (base_object_common_of \<lparr>fmt_class = JSONRequestLogFormatter_class\<rparr>
     (snd (new_formatter JSONLogWebFormatter_class
             (imported_globals\<lparr>COMPONENT_ID := PStr ''c1'',
                                COMPONENT_INSTANCE_INDEX := PInt 3\<rparr>))))
     ''component_instance_idx'' = Some (PInt 3) \<and>
   base_object_common_of \<lparr>fmt_class = JSONRequestLogFormatter_class\<rparr> imported_globals = []"
proof -
  let ?s = "imported_globals\<lparr>COMPONENT_ID := PStr ''c1'', COMPONENT_INSTANCE_INDEX := PInt 3\<rparr>"
  have h: "issubclass JSONLogWebFormatter_class ''BaseJSONFormatter''"
    by (simp add: issubclass_def JSONLogWebFormatter_class_def)
  have e: "base_object_common_of \<lparr>fmt_class = JSONRequestLogFormatter_class\<rparr>
             imported_globals = []"
    by (simp add: base_object_common_of_def imported_globals_def module_globals_fields)
  have t1: "truthy (COMPONENT_ID ?s) \<and> COMPONENT_ID ?s \<noteq> EMPTY_VALUE"
    and t3: "truthy (COMPONENT_INSTANCE_INDEX ?s) \<and> COMPONENT_INSTANCE_INDEX ?s \<noteq> EMPTY_VALUE"
    and v1: "COMPONENT_ID ?s = PStr ''c1''" and v3: "COMPONENT_INSTANCE_INDEX ?s = PInt 3"
    by (simp_all add: EMPTY_VALUE_def)
  from C10_shared_base_object_common [OF h, where s = ?s
      and earlier = "\<lparr>fmt_class = JSONRequestLogFormatter_class\<rparr>"] t1 t3
  have "dict_get (base_object_common_of \<lparr>fmt_class = JSONRequestLogFormatter_class\<rparr>
          (snd (new_formatter JSONLogWebFormatter_class ?s))) ''component_id'' =
          Some (COMPONENT_ID ?s)"
    and "dict_get (base_object_common_of \<lparr>fmt_class = JSONRequestLogFormatter_class\<rparr>
          (snd (new_formatter JSONLogWebFormatter_class ?s))) ''component_instance_idx'' =
          Some (COMPONENT_INSTANCE_INDEX ?s)"
    by blast+
  then show ?thesis
    unfolding v1 v3 using h e by (intro conjI)
qed

section \<open>A standard record on Python 3.12\<close>

lemma component_globals_formatter:
  "fmt_class (fst (new_formatter JSONLogFormatter_class component_globals)) =
     JSONLogFormatter_class"
  "base_object_common (snd (new_formatter JSONLogFormatter_class component_globals)) =
     [(''component_id'', PStr ''c1'')]"
  by (simp_all add: new_formatter_def issubclass_def JSONLogFormatter_class_def
        BaseJSONFormatter_init_def Let_def component_globals_def imported_globals_def
        module_globals_components module_globals_fields EMPTY_VALUE_def dict_set_def)

lemma plain_record_object:
  "JSONLogFormatter_format_log_object plain_lib [(''component_id'', PStr ''c1'')] 0
     plain_record =
     Inr [(''written_at'', PStr ''T''), (''written_ts'', PInt 0),
          (''component_id'', PStr ''c1''), (''msg'', PStr ''hello''),
          (''type'', PStr ''log''), (''logger'', PStr ''app''),
          (''thread'', PStr ''MainThread''), (''level'', PStr ''INFO''),
          (''module'', PStr ''app''), (''line_no'', PInt 7)]"
  by (simp add: JSONLogFormatter_format_log_object_def
        BaseJSONFormatter_format_log_object_def get_extra_fields_def sanitize_log_msg_def
        sanitize_def record_dict_items_def extra_field_def RECORD_ATTR_SKIP_LIST_def
        plain_record_def plain_lib_def dict_update_def dict_set_def dict_get_def Let_def)

lemma plain_record_312_object:
  "JSONLogFormatter_format_log_object plain_lib [(''component_id'', PStr ''c1'')] 0
     plain_record_312 =
     Inr [(''written_at'', PStr ''T''), (''written_ts'', PInt 0),
          (''component_id'', PStr ''c1''), (''taskName'', PNone), (''msg'', PStr ''hello''),
          (''type'', PStr ''log''), (''logger'', PStr ''app''),
          (''thread'', PStr ''MainThread''), (''level'', PStr ''INFO''),
          (''module'', PStr ''app''), (''line_no'', PInt 7)]"
  by (simp add: JSONLogFormatter_format_log_object_def
        BaseJSONFormatter_format_log_object_def get_extra_fields_def sanitize_log_msg_def
        sanitize_def record_dict_items_def extra_field_def RECORD_ATTR_SKIP_LIST_def
        plain_record_312_def plain_record_def plain_lib_def dict_update_def dict_set_def
        dict_get_def Let_def)

text \<open>
  C5. \<open>RECORD_ATTR_SKIP_LIST\<close> is commented as holding all the attributes of a
  \<open>LogRecord\<close>, yet it lacks \<open>taskName\<close>, which every record has from Python 3.12 on.
  With \<open>COMPONENT_ID\<close> configured and a \<open>JSONLogFormatter\<close> constructed, the record of
  \<open>logger.info("hello")\<close> (no exception info, no extra attribute) formats to an object that
  has the key \<open>taskName\<close> next to \<open>written_at\<close>, \<open>written_ts\<close>, \<open>component_id\<close> and the seven
  fields of the log layer. The same call on a record built before Python 3.12 gives
  exactly those keys without \<open>taskName\<close>.
\<close>

theorem C5_standard_record_emits_taskName:
  "format_log_object plain_lib (fst (new_formatter JSONLogFormatter_class component_globals))
     0 plain_record_312 (snd (new_formatter JSONLogFormatter_class component_globals)) (0::nat) =
     Inr ([(''written_at'', PStr ''T''), (''written_ts'', PInt 0),
           (''component_id'', PStr ''c1''), (''taskName'', PNone), (''msg'', PStr ''hello''),
           (''type'', PStr ''log''), (''logger'', PStr ''app''),
           (''thread'', PStr ''MainThread''), (''level'', PStr ''INFO''),
           (''module'', PStr ''app''), (''line_no'', PInt 7)], None, 0) \<and>
   format_log_object plain_lib (fst (new_formatter JSONLogFormatter_class component_globals))
     0 plain_record (snd (new_formatter JSONLogFormatter_class component_globals)) (0::nat) =
     Inr ([(''written_at'', PStr ''T''), (''written_ts'', PInt 0),
           (''component_id'', PStr ''c1''), (''msg'', PStr ''hello''),
           (''type'', PStr ''log''), (''logger'', PStr ''app''),
           (''thread'', PStr ''MainThread''), (''level'', PStr ''INFO''),
           (''module'', PStr ''app''), (''line_no'', PInt 7)], None, 0)"
proof -
  have c: "\<not> issubclass JSONLogFormatter_class ''JSONLogWebFormatter''"
    "issubclass JSONLogFormatter_class ''JSONLogFormatter''"
    by (simp_all add: issubclass_def JSONLogFormatter_class_def)
  show ?thesis
    by (simp add: format_log_object_def base_object_common_of_def Let_def
          component_globals_formatter c plain_record_object plain_record_312_object)
qed

section \<open>True division and the response time of the carrier\<close>

lemma rne_lower: "\<lfloor>x\<rfloor> \<le> rne x"
  by (simp add: rne_def Let_def)

lemma rne_ge_int: "of_int m \<le> x \<Longrightarrow> m \<le> rne x"
  using rne_lower [of x] by (simp add: le_floor_iff [symmetric])

lemma rne_upper: "of_int (rne x) \<le> x + 1 / 2"
proof -
  have a: "of_int \<lfloor>x\<rfloor> \<le> x" by simp
  consider (lt) "x - of_int \<lfloor>x\<rfloor> < 1 / 2" | (gt) "1 / 2 < x - of_int \<lfloor>x\<rfloor>"
    | (eq) "x - of_int \<lfloor>x\<rfloor> = 1 / 2"
    by linarith
  then show ?thesis
  proof cases
    case lt
    then have r: "rne x = \<lfloor>x\<rfloor>" by (simp add: rne_def Let_def)
    show ?thesis unfolding r using a by linarith
  next
    case gt
    then have r: "rne x = \<lfloor>x\<rfloor> + 1" by (simp add: rne_def Let_def)
    show ?thesis unfolding r using gt by simp
  next
    case eq
    then have "rne x = \<lfloor>x\<rfloor> \<or> rne x = \<lfloor>x\<rfloor> + 1" by (simp add: rne_def Let_def)
    then show ?thesis
    proof
      assume r: "rne x = \<lfloor>x\<rfloor>"
      show ?thesis unfolding r using a by linarith
    next
      assume r: "rne x = \<lfloor>x\<rfloor> + 1"
      show ?thesis unfolding r using eq by simp
    qed
  qed
qed

lemma expo_from_le: "expo_from n e x \<le> e"
proof (induction n arbitrary: e)
  case 0
  show ?case by simp
next
  case (Suc n)
  from Suc.IH [of "e - 1"] show ?case by simp
qed

lemma expo_from_found: "2 powi (expo_from n e x) \<le> x \<or> expo_from n e x = e - int n"
proof (induction n arbitrary: e)
  case 0
  show ?case by simp
next
  case (Suc n)
  from Suc.IH [of "e - 1"] show ?case by auto
qed

lemma expo_from_eq:
  "e \<le> e0 \<Longrightarrow> e0 - int n \<le> e \<Longrightarrow> 2 powi e \<le> x \<Longrightarrow> x < 2 powi (e + 1) \<Longrightarrow>
   expo_from n e0 x = e"
proof (induction n arbitrary: e0)
  case 0
  then show ?case by simp
next
  case (Suc n)
  show ?case
  proof (cases "2 powi e0 \<le> x")
    case True
    with Suc.prems(4) have "(2::rat) powi e0 < 2 powi (e + 1)" by simp
    then have "e0 < e + 1"
      by (metis linorder_not_less one_le_numeral power_int_increasing)
    with Suc.prems(1) True show ?thesis by simp
  next
    case False
    with Suc.prems(3) have "(2::rat) powi e < 2 powi e0" by simp
    then have "e < e0"
      by (metis linorder_not_less one_le_numeral power_int_increasing)
    with False Suc.prems show ?thesis
      by (simp add: Suc.IH)
  qed
qed

lemma expo_le: "expo x \<le> 1023"
  by (simp add: expo_def expo_from_le)

lemma expo_less:
  assumes "x < 2 powi k" and "- 1022 < k"
  shows "expo x < k"
proof -
  from expo_from_found [of 2045 1023 x]
  consider "2 powi (expo x) \<le> x" | "expo x = - 1022"
    by (auto simp add: expo_def)
  then show ?thesis
  proof cases
    case 1
    with assms(1) have "(2::rat) powi (expo x) < 2 powi k" by simp
    then show ?thesis
      by (metis linorder_not_less one_le_numeral power_int_increasing)
  next
    case 2
    with assms(2) show ?thesis by simp
  qed
qed

lemma round_double_nonneg: "0 \<le> x \<Longrightarrow> 0 \<le> round_double x"
proof -
  assume "0 \<le> x"
  then have "of_int 0 \<le> x / 2 powi (expo x - 52)" by simp
  then have "0 \<le> rne (x / 2 powi (expo x - 52))" by (rule rne_ge_int)
  then show ?thesis by (simp add: round_double_def Let_def)
qed

lemma round_double_upper: "round_double x \<le> x + 2 powi (expo x - 52) / 2"
proof -
  let ?w = "(2::rat) powi (expo x - 52)"
  have w: "0 < ?w" by simp
  have "of_int (rne (x / ?w)) * ?w \<le> (x / ?w + 1 / 2) * ?w"
    using rne_upper [of "x / ?w"] w by (simp only: mult_le_cancel_right_pos)
  also have "\<dots> = x + ?w / 2"
    using w by (simp add: field_simps)
  finally show ?thesis by (simp add: round_double_def Let_def)
qed

lemma round_double_ge_int:
  assumes "of_int k \<le> x" and "expo x \<le> 52"
  shows "of_int k \<le> round_double x"
proof -
  let ?p = "expo x - 52"
  let ?w = "(2::rat) powi ?p"
  have w: "0 < ?w" by simp
  have inv: "1 / ?w = of_int (2 ^ nat (- ?p))"
    using assms(2) by (simp add: power_int_def power_divide)
  have "of_int (k * 2 ^ nat (- ?p)) = of_int k / ?w"
    using inv by (simp add: field_simps)
  also have "\<dots> \<le> x / ?w"
    using assms(1) w by (simp add: divide_right_mono)
  finally have "k * 2 ^ nat (- ?p) \<le> rne (x / ?w)"
    by (rule rne_ge_int)
  then have "(of_int (k * 2 ^ nat (- ?p)) :: rat) \<le> of_int (rne (x / ?w))"
    by (simp only: of_int_le_iff)
  then have e2: "of_int (k * 2 ^ nat (- ?p)) * ?w \<le> of_int (rne (x / ?w)) * ?w"
    using w by (simp only: mult_le_cancel_right_pos)
  have e1: "of_int (k * 2 ^ nat (- ?p)) * ?w = of_int k"
    using inv w by (simp add: field_simps)
  from e2 have "of_int k \<le> of_int (rne (x / ?w)) * ?w"
    unfolding e1 .
  then show ?thesis
    unfolding round_double_def Let_def .
qed

lemma round_double_zero: "round_double 0 = 0"
  by (simp add: round_double_def rne_def)

lemma truediv_nonneg:
  assumes "0 \<le> a" and "0 < b" and "of_int a / of_int b < (2::rat) powi 1023"
  shows "truediv a b = Inr (round_double (of_int a / of_int b))"
proof -
  let ?q = "of_int a / of_int b :: rat"
  have q: "0 \<le> ?q" using assms(1,2) by simp
  define M where "M = (2::rat) powi 1023"
  define w where "w = (2::rat) powi (expo ?q - 52)"
  have "w \<le> M"
    unfolding w_def M_def using expo_le [of ?q] by (intro power_int_increasing) simp_all
  moreover have "0 < w" by (simp add: w_def)
  moreover have "round_double ?q \<le> ?q + w / 2"
    unfolding w_def by (rule round_double_upper)
  moreover have "?q < M"
    unfolding M_def by (rule assms(3))
  ultimately have "round_double ?q < M + M" by linarith
  also have "M + M = (2::rat) powi 1024"
    unfolding M_def using power_int_add_1 [of "2::rat" 1023] by simp
  finally have no: "\<not> 2 powi 1024 \<le> round_double ?q" by simp
  have sg: "sgn ?q * round_double ?q = round_double ?q"
  proof (cases "?q = 0")
    case True
    have "round_double ?q = 0"
      unfolding True by (rule round_double_zero)
    then show ?thesis by (simp only: mult_zero_right)
  next
    case False
    with q have "0 < ?q" by (simp only: order_less_le) auto
    then have "sgn ?q = 1" by (simp only: sgn_pos)
    then show ?thesis by (simp only: mult_1)
  qed
  have ab: "\<bar>?q\<bar> = ?q" using q by (rule abs_of_nonneg)
  have bz: "b \<noteq> 0" using assms(2) by simp
  show ?thesis
    unfolding truediv_def Let_def ab by (simp only: bz no sg if_False)
qed

lemma round_double_floor:
  assumes "0 \<le> a" and "0 < b" and "b < 1048576" and "a < 17179869184 * b"
  shows "\<lfloor>round_double (of_int a / of_int b)\<rfloor> = a div b"
proof -
  let ?q = "of_int a / of_int b :: rat"
  let ?k = "a div b"
  let ?w = "(2::rat) powi (expo ?q - 52)"
  have b: "(0::rat) < of_int b" using assms(2) by simp
  have "(of_int a :: rat) < of_int (17179869184 * b)"
    using assms(4) by (simp only: of_int_less_iff)
  then have "?q < 17179869184"
    using b by (simp add: pos_divide_less_eq)
  then have "?q < 2 powi 34" by simp
  then have e: "expo ?q < 34" by (rule expo_less) simp
  have lower: "of_int ?k \<le> ?q"
    using of_int_floor_le [of ?q] by (simp only: floor_divide_of_int_eq)
  have ge: "of_int ?k \<le> round_double ?q"
    using lower e by (intro round_double_ge_int) simp_all
  have "?w \<le> 2 powi (- 19)"
    using e by (intro power_int_increasing) simp_all
  then have w: "?w / 2 \<le> 1 / 1048576" by simp
  have m: "a mod b \<le> b - 1" using assms(2) by simp
  have "of_int a = (of_int (b * ?k + a mod b) :: rat)" by simp
  also have "\<dots> \<le> of_int (b * ?k + (b - 1))"
    using m by (simp only: of_int_le_iff)
  also have "\<dots> = of_int b * (of_int ?k + 1 - 1 / of_int b)"
    using b by (simp add: field_simps)
  finally have "?q \<le> of_int ?k + 1 - 1 / of_int b"
    using b by (simp add: pos_divide_le_eq mult.commute)
  moreover have "(1::rat) / 1048576 < 1 / of_int b"
    using b assms(3) by (simp add: field_simps)
  ultimately have "round_double ?q < of_int ?k + 1"
    using round_double_upper [of ?q] w by linarith
  with ge show ?thesis
    by (simp add: floor_eq_iff)
qed

lemma truediv_floor:
  assumes "0 \<le> a" and "0 < b" and "b < 1048576" and "a < 17179869184 * b"
  shows "\<exists>r. truediv a b = Inr r \<and> 0 \<le> r \<and> \<lfloor>r\<rfloor> = a div b"
proof -
  let ?q = "of_int a / of_int b :: rat"
  have b: "(0::rat) < of_int b" using assms(2) by simp
  have "(of_int a :: rat) < of_int (17179869184 * b)"
    using assms(4) by (simp only: of_int_less_iff)
  then have "?q < 17179869184"
    using b by (simp add: pos_divide_less_eq)
  also have "(17179869184::rat) \<le> 2 powi 1023"
    using power_int_increasing [of 34 1023 "2::rat"] by simp
  finally have "truediv a b = Inr (round_double ?q)"
    using assms(1,2) by (intro truediv_nonneg)
  moreover have "0 \<le> round_double ?q"
    using assms(1,2) by (intro round_double_nonneg) simp
  ultimately show ?thesis
    using round_double_floor [OF assms] by simp
qed

lemma datetime_sub_total:
  "(days (datetime_sub a b) * 86400 + seconds (datetime_sub a b)) * 1000000
     + microseconds (datetime_sub a b) = a - b"
proof -
  define us where "us = a - b"
  have m: "us mod 86400000000 mod 1000000 = us mod 1000000"
    by (rule mod_mod_cancel) simp
  have "us = us div 86400000000 * 86400000000 + us mod 86400000000"
    by simp
  also have "us mod 86400000000 =
      us mod 86400000000 div 1000000 * 1000000 + us mod 86400000000 mod 1000000"
    by simp
  finally have "us = (us div 86400000000 * 86400 + us mod 86400000000 div 1000000) * 1000000
      + us mod 1000000"
    unfolding m by (simp add: algebra_simps)
  then show ?thesis
    by (simp add: datetime_sub_def Let_def us_def [symmetric])
qed

lemma total_seconds_datetime_sub:
  "total_seconds (datetime_sub a b) = truediv (a - b) 1000000"
  unfolding total_seconds_def datetime_sub_total ..

lemma py_int_nonneg: "0 \<le> x \<Longrightarrow> py_int x = \<lfloor>x\<rfloor>"
  by (simp add: py_int_def)

text \<open>
  C3. A carrier started at \<open>T\<close> and completed \<open>s\<close> seconds and \<open>u\<close> microseconds later,
  within the range of a \<open>timedelta\<close> (\<open>0 \<le> s < 86400 * 10^9\<close>, \<open>0 \<le> u < 10^6\<close>), stores
  \<open>response_time_ms = floor(ts) * 1000 + u div 1000\<close>, where \<open>ts\<close> is the float that
  \<open>total_seconds()\<close> returns: the whole seconds are truncated before the truncated
  milliseconds of the microsecond field are added. Below \<open>2^34\<close> seconds the float has the
  whole seconds exactly, \<open>floor(ts) = s\<close>, so the value is \<open>s * 1000 + u div 1000\<close>.
\<close>

theorem C3_response_time_ms:
  assumes "dto_request_start d = Some T" and "0 \<le> s" and "s < 86400000000000"
    and "0 \<le> u" and "u < 1000000"
  shows "\<exists>d' ts. on_request_complete L (T + s * 1000000 + u) response d = Inr d' \<and>
           total_seconds (datetime_sub (T + s * 1000000 + u) T) = Inr ts \<and>
           dict_get (dto_items d') ''response_time_ms'' =
             Some (PInt (\<lfloor>ts\<rfloor> * 1000 + u div 1000)) \<and>
           (s < 17179869184 \<longrightarrow> \<lfloor>ts\<rfloor> = s)"
proof -
  let ?a = "s * 1000000 + u"
  let ?td = "datetime_sub (T + s * 1000000 + u) T"
  let ?q = "of_int ?a / of_int 1000000 :: rat"
  define ts where "ts = round_double ?q"
  have a0: "0 \<le> ?a" using assms(2,4) by simp
  have diff: "T + s * 1000000 + u - T = ?a" by simp
  have "(of_int ?a :: rat) < of_int (86400000000000 * 1000000)"
    using assms(3,5) by (simp only: of_int_less_iff)
  then have "?q < 86400000000000" by simp
  also have "(86400000000000::rat) \<le> 2 ^ 47" by simp
  also have "(2::rat) ^ 47 \<le> 2 powi 1023"
    using power_int_increasing [of 47 1023 "2::rat"] by simp
  finally have "truediv ?a 1000000 = Inr ts"
    unfolding ts_def using a0 by (intro truediv_nonneg) simp_all
  then have tot: "total_seconds ?td = Inr ts"
    unfolding total_seconds_datetime_sub diff .
  have tsn: "0 \<le> ts"
    unfolding ts_def using a0 by (intro round_double_nonneg) simp
  have mic: "microseconds ?td = u"
    using assms(4,5) by (simp add: datetime_sub_def Let_def)
  from truediv_floor [of u 1000] assms(4,5)
  obtain ms where ms: "truediv u 1000 = Inr ms" "0 \<le> ms" "\<lfloor>ms\<rfloor> = u div 1000"
    by auto
  have run: "on_request_complete L (T + s * 1000000 + u) response d =
      Inr (d\<lparr>dto_response := Some response,
             dto_items := dict_set
               (dict_set (dto_items d) ''response_time_ms''
                  (PInt (\<lfloor>ts\<rfloor> * 1000 + u div 1000)))
               ''response_sent_at'' (PStr (iso_time_format L (T + s * 1000000 + u)))\<rparr>)"
    using assms(1)
    by (simp add: on_request_complete_def RequestResponseDTOBase_on_request_complete_def
          Let_def tot mic ms py_int_nonneg [OF tsn] py_int_nonneg [OF ms(2)])
  have exact: "s < 17179869184 \<longrightarrow> \<lfloor>ts\<rfloor> = s"
  proof
    assume "s < 17179869184"
    with assms(5) have "?a < 17179869184 * 1000000" by simp
    with a0 have "\<lfloor>ts\<rfloor> = ?a div 1000000"
      unfolding ts_def by (intro round_double_floor) simp_all
    also have "\<dots> = s" using assms(4,5) by simp
    finally show "\<lfloor>ts\<rfloor> = s" .
  qed
  show ?thesis
    using run tot exact by (simp add: dict_get_dict_set)
qed

theorem C3_response_time_ms_witness:
  "dto_request_start plain_carrier = Some 0 \<and>
   (\<exists>d'. on_request_complete plain_lib (0 + 1 * 1000000 + 500000) 200 plain_carrier = Inr d' \<and>
      dict_get (dto_items d') ''response_time_ms'' = Some (PInt 1500)) \<and>
   (\<exists>d'. on_request_complete plain_lib (0 + 1 * 1000000 + 999999) 200 plain_carrier = Inr d' \<and>
      dict_get (dto_items d') ''response_time_ms'' = Some (PInt 1999))"
proof -
  have h: "dto_request_start plain_carrier = Some 0"
    by (simp add: plain_carrier_def)
  from C3_response_time_ms [OF h, of 1 500000 plain_lib 200]
  have a: "\<exists>d'. on_request_complete plain_lib (0 + 1 * 1000000 + 500000) 200 plain_carrier
                  = Inr d' \<and>
               dict_get (dto_items d') ''response_time_ms'' = Some (PInt 1500)"
    by auto
  from C3_response_time_ms [OF h, of 1 999999 plain_lib 200]
  have b: "\<exists>d'. on_request_complete plain_lib (0 + 1 * 1000000 + 999999) 200 plain_carrier
                  = Inr d' \<and>
               dict_get (dto_items d') ''response_time_ms'' = Some (PInt 1999)"
    by auto
  show ?thesis
    using h a b by (intro conjI)
qed

text \<open>
  The bound \<open>2^34\<close> is where the float gives out: \<open>2^34\<close> seconds and 999999 microseconds
  divided by \<open>10^6\<close> is nearer to the double \<open>2^34 + 1\<close> than to any other, and the carrier
  stores a value one second above \<open>s * 1000 + u div 1000\<close>.
\<close>

lemma total_seconds_rounds_up:
  "truediv 17179869184999999 1000000 = Inr 17179869185"
proof -
  let ?q = "17179869184999999 / 1000000 :: rat"
  have e: "expo ?q = 34"
    unfolding expo_def by (rule expo_from_eq) simp_all
  have fl: "\<lfloor>70368744181759995904 / 15625 :: rat\<rfloor> = 4503599627632639"
    by (simp add: floor_eq_iff)
  have r: "round_double ?q = 17179869185"
    unfolding round_double_def Let_def e by (simp add: rne_def Let_def fl)
  have "?q < 2 powi 1023"
    using power_int_increasing [of 35 1023 "2::rat"] by simp
  then have "truediv 17179869184999999 1000000 = Inr (round_double ?q)"
    using truediv_nonneg [of 17179869184999999 1000000] by simp
  then show ?thesis
    unfolding r .
qed

lemma response_time_ms_rounds_up:
  "\<exists>d'. on_request_complete plain_lib 17179869184999999 200 plain_carrier = Inr d' \<and>
         dict_get (dto_items d') ''response_time_ms'' = Some (PInt 17179869185999)"
proof -
  have h: "dto_request_start plain_carrier = Some 0"
    by (simp add: plain_carrier_def)
  have t: "total_seconds (datetime_sub 17179869184999999 0) = Inr 17179869185"
    by (simp add: total_seconds_datetime_sub total_seconds_rounds_up)
  have mic: "microseconds (datetime_sub 17179869184999999 0) = 999999"
    by (simp add: datetime_sub_def Let_def)
  from truediv_floor [of 999999 1000]
  obtain ms where ms: "truediv 999999 1000 = Inr ms" "0 \<le> ms" "\<lfloor>ms\<rfloor> = 999"
    by auto
  show ?thesis
    using h
    by (simp add: on_request_complete_def RequestResponseDTOBase_on_request_complete_def
          Let_def t mic ms py_int_nonneg [OF ms(2)] py_int_def dict_get_dict_set)
qed

section \<open>Resolving the correlation id twice\<close>

lemma plain_adapter_caches: "caching_adapter plain_request_adapter"
  by (simp add: caching_adapter_def plain_request_adapter_def)

lemma resolve_existing:
  "get_correlation_id_in_request ad rq = Some cid \<Longrightarrow>
   resolve cfg ad gen (Some rq) wfl g = ((cid, []), Some rq, g)"
  by (simp add: resolve_def)

text \<open>
  C9, as the claim states it: the second resolution reads a cached value and does not
  scan the headers again. With generation switched off and a request without correlation
  headers, the adapter caching, both resolutions return the sentinel, the request is left
  without an id, and the second resolution scans both configured headers again.
\<close>

theorem C9_second_resolution_scans_again:
  "caching_adapter plain_request_adapter \<and>
   resolve no_create_config plain_request_adapter counting_gen (Some bare_request) False 0 =
     ((''-'', [''X-Correlation-ID'', ''X-Request-ID'']), Some bare_request, 0) \<and>
   snd (fst (resolve no_create_config plain_request_adapter counting_gen
               (fst (snd (resolve no_create_config plain_request_adapter counting_gen
                            (Some bare_request) False 0)))
               False
               (snd (snd (resolve no_create_config plain_request_adapter counting_gen
                            (Some bare_request) False 0))))) =
     [''X-Correlation-ID'', ''X-Request-ID'']"
proof -
  have r: "resolve no_create_config plain_request_adapter counting_gen (Some bare_request)
             False 0 = ((''-'', [''X-Correlation-ID'', ''X-Request-ID'']), Some bare_request, 0)"
    by (simp add: resolve_def no_create_config_def default_config_def bare_request_def
          plain_request_adapter_def CORRELATION_ID_HEADERS_def dict_get_def)
  show ?thesis
    unfolding r using plain_adapter_caches r by simp
qed

text \<open>
  C9, amended. With a caching adapter, resolving for a request and then again for the
  request as the first resolution left it returns the same id. When the first resolution
  found an id on the request or in a header, or generation is enabled, the second
  resolution returns it with an empty scan and leaves request and generator alone.
\<close>

theorem C9_resolve_twice:
  assumes "caching_adapter ad"
    and "resolve cfg ad gen (Some rq) wfl g = ((cid1, scanned1), q1, g1)"
  shows "\<exists>rq1. q1 = Some rq1 \<and>
           fst (fst (resolve cfg ad gen (Some rq1) wfl' g1)) = cid1 \<and>
           (get_correlation_id_in_request ad rq \<noteq> None \<or>
            fst (scan_headers ad rq (correlation_id_headers cfg)) \<noteq> None \<or>
            create_correlation_id_if_not_exists cfg \<longrightarrow>
              resolve cfg ad gen (Some rq1) wfl' g1 = ((cid1, []), Some rq1, g1))"
proof (cases "get_correlation_id_in_request ad rq")
  case (Some c)
  with assms(2) have "cid1 = c" and "q1 = Some rq" and "g1 = g"
    by (auto simp add: resolve_def)
  with Some show ?thesis
    by (simp add: resolve_existing)
next
  case None
  obtain found scanned where sc: "scan_headers ad rq (correlation_id_headers cfg) = (found, scanned)"
    by (cases "scan_headers ad rq (correlation_id_headers cfg)")
  show ?thesis
  proof (cases found)
    case (Some v)
    with assms(2) None sc have "cid1 = v" and "q1 = Some (set_correlation_id ad rq v)"
      and "g1 = g"
      by (auto simp add: resolve_def)
    moreover have "get_correlation_id_in_request ad (set_correlation_id ad rq v) = Some v"
      using assms(1) by (simp add: caching_adapter_def)
    ultimately show ?thesis
      by (simp add: resolve_existing)
  next
    case nf: None
    show ?thesis
    proof (cases "create_correlation_id_if_not_exists cfg")
      case True
      with assms(2) None sc nf have "cid1 = fst (gen g)"
        and "q1 = Some (set_correlation_id ad rq (fst (gen g)))" and "g1 = snd (gen g)"
        by (auto simp add: resolve_def split_beta)
      moreover have "get_correlation_id_in_request ad (set_correlation_id ad rq (fst (gen g)))
                       = Some (fst (gen g))"
        using assms(1) by (simp add: caching_adapter_def)
      ultimately show ?thesis
        by (simp add: resolve_existing)
    next
      case False
      with assms(2) None sc nf have "cid1 = ''-''" and "q1 = Some rq" and "g1 = g"
        by (auto simp add: resolve_def)
      with False None sc nf show ?thesis
        by (simp add: resolve_def)
    qed
  qed
qed

theorem C9_resolve_twice_witness:
  "caching_adapter plain_request_adapter \<and>
   resolve default_config plain_request_adapter counting_gen (Some header_request) False 0 =
     ((''abc-123'', [''X-Correlation-ID'']),
      Some (header_request\<lparr>pr_correlation_id := Some ''abc-123''\<rparr>), 0) \<and>
   resolve default_config plain_request_adapter counting_gen
     (Some (header_request\<lparr>pr_correlation_id := Some ''abc-123''\<rparr>)) False 0 =
     ((''abc-123'', []), Some (header_request\<lparr>pr_correlation_id := Some ''abc-123''\<rparr>), 0)"
proof -
  have r: "resolve default_config plain_request_adapter counting_gen (Some header_request)
             False 0 =
     ((''abc-123'', [''X-Correlation-ID'']),
      Some (header_request\<lparr>pr_correlation_id := Some ''abc-123''\<rparr>), 0)"
    by (simp add: resolve_def default_config_def header_request_def
          plain_request_adapter_def CORRELATION_ID_HEADERS_def dict_get_def)
  have c: "create_correlation_id_if_not_exists default_config"
    by (simp add: default_config_def CREATE_CORRELATION_ID_IF_NOT_EXISTS_def)
  from C9_resolve_twice [OF plain_adapter_caches r, of False] c
  have "resolve default_config plain_request_adapter counting_gen
     (Some (header_request\<lparr>pr_correlation_id := Some ''abc-123''\<rparr>)) False 0 =
     ((''abc-123'', []), Some (header_request\<lparr>pr_correlation_id := Some ''abc-123''\<rparr>), 0)"
    by blast
  with plain_adapter_caches r show ?thesis by (intro conjI)
qed

end
